theory Spec2Isabelle
  imports Complex_Main "HOL-Library.Word" "HOL-Library.AList"
begin

text \<open>
  A shallow embedding of the event-certification pipeline of VEPS: the vector-clock
  algebra of the event model, the normalizer and the batch entry of the boundary
  adapter, the boundary router, the context store, the validator and the fracture
  archive. Each function is modelled after its Go source, named in the section titles;
  what a function reads from outside (clocks, fresh identifiers, the environment, the
  answers of other services and of libraries) is an argument of its model. The first
  part holds the definitions, the second the properties proved about them.
\<close>


section \<open>Event model: vector clocks (boundary-adapter/pkg/models/event.go)\<close>

text \<open>
  Go's \<^verbatim>\<open>int64\<close> is a 64-bit word read as two's complement: \<open>+\<close> wraps and the
  comparisons of the source are the signed ones (\<open><s\<close>, \<open>\<le>s\<close>).
\<close>

type_synonym int64 = "64 word"

text \<open>
  \<^verbatim>\<open>type VectorClock map[string]int64\<close>. A Go map is a finite set of entries with
  pairwise different keys; \<^verbatim>\<open>range\<close> visits them in an unspecified order. The model is
  the list of entries in the order one \<^verbatim>\<open>range\<close> visits them; \<open>wf_vc\<close> says that the
  keys are pairwise different, as they are in every Go map.
\<close>

type_synonym VectorClock = "(string \<times> int64) list"

definition wf_vc :: "VectorClock \<Rightarrow> bool" where
  "wf_vc vc = distinct (map fst vc)"

text \<open>\<^verbatim>\<open>v, exists := vc[k]\<close>: the entry, if the key is present.\<close>

definition vc_lookup :: "VectorClock \<Rightarrow> string \<Rightarrow> int64 option" where
  "vc_lookup vc k = map_of vc k"

text \<open>\<^verbatim>\<open>vc[k]\<close> as an expression: the zero value when the key is missing.\<close>

definition vc_get :: "VectorClock \<Rightarrow> string \<Rightarrow> int64" where
  "vc_get vc k = (case map_of vc k of None \<Rightarrow> 0 | Some v \<Rightarrow> v)"

text \<open>\<^verbatim>\<open>vc[k] = v\<close>: overwrite the entry or add it.\<close>

definition vc_set :: "VectorClock \<Rightarrow> string \<Rightarrow> int64 \<Rightarrow> VectorClock" where
  "vc_set vc k v = AList.update k v vc"

text \<open>\<^verbatim>\<open>func (vc VectorClock) Increment(nodeID string) { vc[nodeID]++ }\<close>\<close>

definition Increment :: "VectorClock \<Rightarrow> string \<Rightarrow> VectorClock" where
  "Increment vc nodeID = vc_set vc nodeID (vc_get vc nodeID + 1)"

text \<open>
  \<^verbatim>\<open>
  func (vc VectorClock) Merge(other VectorClock) {
      for nodeID, timestamp := range other {
          if vc[nodeID] < timestamp { vc[nodeID] = timestamp }
      }
  }
  \<close>
\<close>

definition Merge_step :: "string \<times> int64 \<Rightarrow> VectorClock \<Rightarrow> VectorClock" where
  "Merge_step e vc =
     (if vc_get vc (fst e) <s snd e then vc_set vc (fst e) (snd e) else vc)"

definition Merge :: "VectorClock \<Rightarrow> VectorClock \<Rightarrow> VectorClock" where
  "Merge vc other = fold Merge_step other vc"

text \<open>
  \<^verbatim>\<open>
  func (vc VectorClock) HappensBefore(other VectorClock) bool {
      lessThanOrEqual := false
      strictlyLess := false
      for nodeID, timestamp := range vc {
          otherTimestamp, exists := other[nodeID]
          if !exists || timestamp > otherTimestamp { return false }
          if timestamp < otherTimestamp { strictlyLess = true }
          lessThanOrEqual = true
      }
      return lessThanOrEqual && strictlyLess
  }
  \<close>
  The loop, with its two flags as arguments and the early return as a branch.
\<close>

fun HappensBefore_loop :: "(string \<times> int64) list \<Rightarrow> VectorClock \<Rightarrow> bool \<Rightarrow> bool \<Rightarrow> bool" where
  "HappensBefore_loop [] other lessThanOrEqual strictlyLess =
     (lessThanOrEqual \<and> strictlyLess)"
| "HappensBefore_loop ((nodeID, timestamp) # rest) other lessThanOrEqual strictlyLess =
     (case vc_lookup other nodeID of
        None \<Rightarrow> False
      | Some otherTimestamp \<Rightarrow>
          if otherTimestamp <s timestamp then False
          else HappensBefore_loop rest other True
                 (if timestamp <s otherTimestamp then True else strictlyLess))"

definition HappensBefore :: "VectorClock \<Rightarrow> VectorClock \<Rightarrow> bool" where
  "HappensBefore vc other = HappensBefore_loop vc other False False"

definition IsConcurrent :: "VectorClock \<Rightarrow> VectorClock \<Rightarrow> bool" where
  "IsConcurrent vc other = (\<not> HappensBefore vc other \<and> \<not> HappensBefore other vc)"

text \<open>The larger of two counters in the signed order.\<close>

definition smax :: "int64 \<Rightarrow> int64 \<Rightarrow> int64" where
  "smax a b = (if a <s b then b else a)"


section \<open>Event model: events (pkg/models/event.go of each service)\<close>

text \<open>
  \<^verbatim>\<open>time.Time\<close> is an instant; the model is the number of nanoseconds since the Unix
  epoch, in UTC. The zero \<^verbatim>\<open>time.Time\<close> is 1 January of year 1, 00:00:00 UTC, which
  is 62135596800 seconds before the epoch.
\<close>

type_synonym time = int

definition zeroTime :: time where
  "zeroTime = - 62135596800 * 1000000000"

definition IsZero :: "time \<Rightarrow> bool" where
  "IsZero t = (t = zeroTime)"

text \<open>\<^verbatim>\<open>t.UnixNano()\<close>: the instant as an \<^verbatim>\<open>int64\<close> count of nanoseconds.\<close>

definition UnixNano :: "time \<Rightarrow> int64" where
  "UnixNano t = word_of_int t"

text \<open>\<^verbatim>\<open>time.Duration\<close> constants, in nanoseconds.\<close>

type_synonym duration = int

definition Millisecond :: duration where "Millisecond = 1000000"
definition Second :: duration where "Second = 1000000000"
definition Minute :: duration where "Minute = 60 * 1000000000"
definition Hour :: duration where "Hour = 3600 * 1000000000"

text \<open>A \<^verbatim>\<open>uuid.UUID\<close> is identified with its canonical text form.\<close>

type_synonym uuid = string

text \<open>
  \<^verbatim>\<open>any\<close> (\<^verbatim>\<open>interface{}\<close>) restricted to the dynamic types the pipeline inspects:
  what \<^verbatim>\<open>encoding/json\<close> decodes into (nil, bool, float64, string, map, slice) and
  the two integer types \<^verbatim>\<open>parseVectorClock\<close> also accepts. A \<^verbatim>\<open>float64\<close> read from
  JSON is finite and is modelled by the real number it denotes. A
  \<^verbatim>\<open>map[string]any\<close> is the list of its entries.
\<close>

datatype any =
    ANil
  | ABool bool
  | AFloat real
  | AInt64 int64
  | AInt int64
  | AString string
  | AMap "(string \<times> any) list"
  | ASlice "any list"

type_synonym jmap = "(string \<times> any) list"

text \<open>\<^verbatim>\<open>m[k].(string)\<close> and \<^verbatim>\<open>m[k].(map[string]interface{})\<close> with the \<^verbatim>\<open>ok\<close> flag as an option.\<close>

definition as_string :: "jmap \<Rightarrow> string \<Rightarrow> string option" where
  "as_string m k = (case map_of m k of Some (AString s) \<Rightarrow> Some s | _ \<Rightarrow> None)"

definition as_map :: "jmap \<Rightarrow> string \<Rightarrow> jmap option" where
  "as_map m k = (case map_of m k of Some (AMap d) \<Rightarrow> Some d | _ \<Rightarrow> None)"

definition as_float64 :: "jmap \<Rightarrow> string \<Rightarrow> real option" where
  "as_float64 m k = (case map_of m k of Some (AFloat x) \<Rightarrow> Some x | _ \<Rightarrow> None)"

record Actor =
  ActorID :: string
  ActorName :: string
  ActorType :: string
  ActorMetadata :: "(string \<times> string) list"

record EventMetadata =
  ReceivedAt :: time
  ProcessedAt :: time
  BoundaryNode :: string
  CorrelationID :: string
  RetryCount :: int
  SchemaVersion :: string

record Event =
  ID :: uuid
  Type :: string
  Source :: string
  Timestamp :: time
  Actor :: Actor
  Evidence :: jmap
  VectorClock :: VectorClock
  Metadata :: EventMetadata

text \<open>\<^verbatim>\<open>RawEvent\<close>; \<open>Data = None\<close> is the nil map.\<close>

record RawEvent =
  Data :: "jmap option"
  RawSource :: string
  RawTimestamp :: time

text \<open>A Go \<^verbatim>\<open>error\<close> built by \<^verbatim>\<open>fmt.Errorf\<close> is its message.\<close>

datatype error = Errorf string

fun message :: "error \<Rightarrow> string" where
  "message (Errorf s) = s"


section \<open>Normalizer (boundary-adapter/internal/normalizer/normalizer.go)\<close>

record Normalizer =
  nodeID :: string

text \<open>
  What one call of \<^verbatim>\<open>Normalize\<close> reads from outside: the three readings of
  \<^verbatim>\<open>time.Now()\<close>, in the order of the source, and the two fresh UUIDs.
\<close>

record norm_env =
  now_timestamp :: time
  now_clock :: time
  now_received :: time
  uuid_event :: uuid
  uuid_correlation :: uuid

text \<open>
  \<^verbatim>\<open>extractActor\<close>: the nested \<^verbatim>\<open>actor\<close> object if \<^verbatim>\<open>data["actor"]\<close> is a map, otherwise
  the flat keys; then the required id and the two defaults.
\<close>

definition extractActor :: "jmap \<Rightarrow> error + Actor" where
  "extractActor data =
     (let actor0 = \<lparr>ActorID = [], ActorName = [], ActorType = [], ActorMetadata = []\<rparr>;
          actor1 =
            (case as_map data ''actor'' of
               Some actorData \<Rightarrow>
                 actor0\<lparr>ActorID := (case as_string actorData ''id'' of Some i \<Rightarrow> i | None \<Rightarrow> []),
                        ActorName := (case as_string actorData ''name'' of Some n \<Rightarrow> n | None \<Rightarrow> []),
                        ActorType := (case as_string actorData ''type'' of Some t \<Rightarrow> t | None \<Rightarrow> [])\<rparr>
             | None \<Rightarrow>
                 actor0\<lparr>ActorID :=
                          (case as_string data ''user_id'' of
                             Some userID \<Rightarrow> userID
                           | None \<Rightarrow> (case as_string data ''actor_id'' of
                                        Some actorID \<Rightarrow> actorID | None \<Rightarrow> [])),
                        ActorName :=
                          (case as_string data ''user_name'' of
                             Some userName \<Rightarrow> userName
                           | None \<Rightarrow> (case as_string data ''actor_name'' of
                                        Some actorName \<Rightarrow> actorName | None \<Rightarrow> []))\<rparr>)
      in if ActorID actor1 = [] then Inl (Errorf ''actor ID is required'')
         else
           (let actor2 = (if ActorName actor1 = [] then actor1\<lparr>ActorName := ActorID actor1\<rparr> else actor1);
                actor3 = (if ActorType actor2 = [] then actor2\<lparr>ActorType := ''user''\<rparr> else actor2)
            in Inr actor3))"

definition excludeFields :: "string list" where
  "excludeFields = [''type'', ''actor'', ''user_id'', ''user_name'', ''actor_id'',
                    ''actor_name'', ''vector_clock'', ''correlation_id'']"

definition extractEvidence :: "jmap \<Rightarrow> jmap" where
  "extractEvidence data = filter (\<lambda>(key, value). key \<notin> set excludeFields) data"

definition extractCorrelationID :: "norm_env \<Rightarrow> jmap \<Rightarrow> string" where
  "extractCorrelationID env data =
     (case as_string data ''correlation_id'' of
        Some corrID \<Rightarrow> if corrID \<noteq> [] then corrID else uuid_correlation env
      | None \<Rightarrow> uuid_correlation env)"

text \<open>
  \<^verbatim>\<open>parseVectorClock\<close>: the numeric entries of the raw map, every other entry
  dropped. \<open>int64_of_float64\<close> is Go's conversion \<^verbatim>\<open>int64(v)\<close> of a \<^verbatim>\<open>float64\<close>
  (truncation for a value in range, left to the implementation otherwise); it is a
  parameter.
\<close>

fun parseVectorClock :: "(real \<Rightarrow> int64) \<Rightarrow> jmap \<Rightarrow> VectorClock" where
  "parseVectorClock int64_of_float64 [] = []"
| "parseVectorClock int64_of_float64 ((node, value) # raw) =
     (case value of
        AFloat v \<Rightarrow> (node, int64_of_float64 v) # parseVectorClock int64_of_float64 raw
      | AInt64 v \<Rightarrow> (node, v) # parseVectorClock int64_of_float64 raw
      | AInt v \<Rightarrow> (node, v) # parseVectorClock int64_of_float64 raw
      | _ \<Rightarrow> parseVectorClock int64_of_float64 raw)"

text \<open>
  The vector-clock stamp of \<^verbatim>\<open>Normalize\<close>: start from \<^verbatim>\<open>{nodeID: time.Now().UnixNano()}\<close>,
  merge the caller's clock if \<^verbatim>\<open>data["vector_clock"]\<close> is a map, increment the own entry.
\<close>

definition stampVectorClock :: "(real \<Rightarrow> int64) \<Rightarrow> Normalizer \<Rightarrow> norm_env \<Rightarrow> jmap \<Rightarrow> VectorClock" where
  "stampVectorClock int64_of_float64 n env data =
     (let vectorClock = [(nodeID n, UnixNano (now_clock env))];
          vectorClock' =
            (case as_map data ''vector_clock'' of
               Some incomingVC \<Rightarrow> Merge vectorClock (parseVectorClock int64_of_float64 incomingVC)
             | None \<Rightarrow> vectorClock)
      in Increment vectorClock' (nodeID n))"

definition Normalize :: "(real \<Rightarrow> int64) \<Rightarrow> Normalizer \<Rightarrow> norm_env \<Rightarrow> RawEvent \<Rightarrow> error + Event" where
  "Normalize int64_of_float64 n env raw =
     (if RawSource raw = [] then Inl (Errorf ''source is required'')
      else case Data raw of
        None \<Rightarrow> Inl (Errorf ''data is required'')
      | Some data \<Rightarrow>
          (case as_string data ''type'' of
             None \<Rightarrow> Inl (Errorf ''event type is required in data'')
           | Some eventType \<Rightarrow>
               if eventType = [] then Inl (Errorf ''event type is required in data'')
               else
                 (case extractActor data of
                    Inl err \<Rightarrow> Inl (Errorf (''failed to extract actor: '' @ message err))
                  | Inr actor \<Rightarrow>
                      Inr \<lparr>ID = uuid_event env,
                           Type = eventType,
                           Source = RawSource raw,
                           Timestamp = (if IsZero (RawTimestamp raw) then now_timestamp env
                                        else RawTimestamp raw),
                           Actor = actor,
                           Evidence = extractEvidence data,
                           VectorClock = stampVectorClock int64_of_float64 n env data,
                           Metadata = \<lparr>ReceivedAt = now_received env,
                                       ProcessedAt = zeroTime,
                                       BoundaryNode = nodeID n,
                                       CorrelationID = extractCorrelationID env data,
                                       RetryCount = 0,
                                       SchemaVersion = ''1.0''\<rparr>\<rparr>)))"

definition ValidateSchema :: "RawEvent \<Rightarrow> error + unit" where
  "ValidateSchema raw =
     (if RawSource raw = [] then Inl (Errorf ''source field is required'')
      else case Data raw of
        None \<Rightarrow> Inl (Errorf ''data field is required'')
      | Some data \<Rightarrow>
          (case as_string data ''type'' of
             None \<Rightarrow> Inl (Errorf ''type field is required in data'')
           | Some t \<Rightarrow>
               (case extractActor data of
                  Inl err \<Rightarrow> Inl (Errorf (''invalid actor data: '' @ message err))
                | Inr actor \<Rightarrow> Inr ())))"

text \<open>
  Go's \<^verbatim>\<open>int64(v)\<close> for a \<^verbatim>\<open>float64\<close> within the range of \<^verbatim>\<open>int64\<close>: truncation
  toward zero. Used for concrete inputs only, all of them in range.
\<close>

definition truncate_int64 :: "real \<Rightarrow> int64" where
  "truncate_int64 v = word_of_int (if 0 \<le> v then \<lfloor>v\<rfloor> else \<lceil>v\<rceil>)"

definition MaxInt64 :: int64 where
  "MaxInt64 = 9223372036854775807"


section \<open>Pipeline entry: batch ingestion (boundary-adapter handler, IngestBatch)\<close>

text \<open>\<^verbatim>\<open>%d\<close> of a non-negative integer: its decimal digits.\<close>

definition digit :: "nat \<Rightarrow> char" where
  "digit d = ''0123456789'' ! d"

fun string_of_nat :: "nat \<Rightarrow> string" where
  "string_of_nat n =
     (if n < 10 then [digit n]
      else string_of_nat (n div 10) @ [digit (n mod 10)])"

declare string_of_nat.simps [simp del]

text \<open>
  \<^verbatim>\<open>RouteResult\<close> of the router. \<open>Duration\<close> is a measurement of elapsed time.
\<close>

record RouteResult =
  RouteEvent :: Event
  IntegritySuccess :: bool
  IntegrityError :: "error option"
  ContextSuccess :: bool
  ContextError :: "error option"
  Duration :: duration

text \<open>
  The handler's \<^verbatim>\<open>Response\<close> envelope. The fields \<^verbatim>\<open>Timestamp\<close> and \<^verbatim>\<open>Duration\<close> are
  wall-clock readings and are left out; \<open>RespData\<close> holds the integer entries of the
  \<^verbatim>\<open>Data\<close> map of a batch reply (\<^verbatim>\<open>total\<close>, \<^verbatim>\<open>succeeded\<close>, \<^verbatim>\<open>failed\<close>).
\<close>

record Response =
  Success :: bool
  Message :: string
  EventID :: string
  RespData :: "(string \<times> nat) list"
  Error :: string

text \<open>
  What a handler call leaves behind: the HTTP status, the envelope, and the events it
  handed to the router (none when the router was not called).
\<close>

record reply =
  status :: nat
  response :: Response
  routed :: "Event list"

text \<open>
  The handler: its normalizer, and its router as far as the handler sees it, namely
  what \<^verbatim>\<open>RouteBatch(ctx, events, maxConcurrent)\<close> returns (one result pointer per
  event, \<open>None\<close> for nil).
\<close>

record Handler =
  normalizer :: Normalizer
  router_RouteBatch :: "Event list \<Rightarrow> nat \<Rightarrow> RouteResult option list"

definition writeError :: "nat \<Rightarrow> string \<Rightarrow> reply" where
  "writeError code msg =
     \<lparr>status = code,
      response = \<lparr>Success = False, Message = [], EventID = [], RespData = [], Error = msg\<rparr>,
      routed = []\<rparr>"

text \<open>The decoded request body: a JSON error, or the array of raw events.\<close>

datatype batch_body = InvalidJSON string | Batch "RawEvent list"

text \<open>
  The normalization loop of \<^verbatim>\<open>IngestBatch\<close>, from index \<open>i\<close> with the events
  normalized so far: it returns at the first element that fails
  \<^verbatim>\<open>ValidateSchema\<close> or \<^verbatim>\<open>Normalize\<close>, with the message of the 400 reply.
  \<open>envs i\<close> is what the \<open>i\<close>-th call of \<^verbatim>\<open>Normalize\<close> reads from outside.
\<close>

fun normalizeAll ::
  "(real \<Rightarrow> int64) \<Rightarrow> Normalizer \<Rightarrow> (nat \<Rightarrow> norm_env) \<Rightarrow> nat \<Rightarrow> RawEvent list \<Rightarrow> Event list
     \<Rightarrow> string + Event list" where
  "normalizeAll f n envs i [] events = Inr events"
| "normalizeAll f n envs i (rawEvent # rest) events =
     (case ValidateSchema rawEvent of
        Inl err \<Rightarrow>
          Inl (''event '' @ string_of_nat i @ '' schema validation failed: '' @ message err)
      | Inr u \<Rightarrow>
          (case Normalize f n (envs i) rawEvent of
             Inl err \<Rightarrow>
               Inl (''event '' @ string_of_nat i @ '' normalization failed: '' @ message err)
           | Inr event \<Rightarrow> normalizeAll f n envs (Suc i) rest (events @ [event])))"

definition countSuccess :: "RouteResult option list \<Rightarrow> nat" where
  "countSuccess results =
     length (filter (\<lambda>result. case result of None \<Rightarrow> False | Some r \<Rightarrow> IntegritySuccess r) results)"

definition IngestBatch ::
  "(real \<Rightarrow> int64) \<Rightarrow> Handler \<Rightarrow> (nat \<Rightarrow> norm_env) \<Rightarrow> string \<Rightarrow> batch_body \<Rightarrow> reply" where
  "IngestBatch f h envs method body =
     (if method \<noteq> ''POST'' then writeError 405 ''only POST method is allowed''
      else case body of
        InvalidJSON err \<Rightarrow> writeError 400 (''invalid JSON: '' @ err)
      | Batch rawEvents \<Rightarrow>
          if length rawEvents = 0 then writeError 400 ''batch cannot be empty''
          else if length rawEvents > 100
          then writeError 400 ''batch size exceeds maximum of 100 events''
          else
            (case normalizeAll f (normalizer h) envs 0 rawEvents [] of
               Inl msg \<Rightarrow> writeError 400 msg
             | Inr events \<Rightarrow>
                 (let results = router_RouteBatch h events 10;
                      successCount = countSuccess results;
                      failCount = length results - successCount
                  in \<lparr>status = (if failCount > 0 then 207 else 200),
                      response =
                        \<lparr>Success = (failCount = 0),
                         Message = ''Batch processing complete: '' @ string_of_nat successCount
                                   @ '' succeeded, '' @ string_of_nat failCount @ '' failed'',
                         EventID = [],
                         RespData = [(''total'', length rawEvents), (''succeeded'', successCount),
                                     (''failed'', failCount)],
                         Error = []\<rparr>,
                      routed = events\<rparr>)))"

text \<open>An element of a batch fails when \<^verbatim>\<open>ValidateSchema\<close> or \<^verbatim>\<open>Normalize\<close> returns an error.\<close>

definition element_fails :: "(real \<Rightarrow> int64) \<Rightarrow> Normalizer \<Rightarrow> norm_env \<Rightarrow> RawEvent \<Rightarrow> bool" where
  "element_fails f n env rawEvent =
     (isl (ValidateSchema rawEvent) \<or> isl (Normalize f n env rawEvent))"

text \<open>The error text of the reply that names element \<open>i\<close> as the failing one.\<close>

definition reject_message ::
  "(real \<Rightarrow> int64) \<Rightarrow> Normalizer \<Rightarrow> norm_env \<Rightarrow> nat \<Rightarrow> RawEvent \<Rightarrow> string" where
  "reject_message f n env i rawEvent =
     ''event '' @ string_of_nat i @
     (case ValidateSchema rawEvent of
        Inl err \<Rightarrow> '' schema validation failed: '' @ message err
      | Inr u \<Rightarrow>
          (case Normalize f n env rawEvent of
             Inl err \<Rightarrow> '' normalization failed: '' @ message err
           | Inr event \<Rightarrow> []))"


section \<open>Context store (rdb-updater/internal/store/store.go)\<close>

text \<open>A row of the table \<^verbatim>\<open>events\<close>, one field per column of \<^verbatim>\<open>InitSchema\<close>.\<close>

record Row =
  row_id :: uuid
  row_type :: string
  row_source :: string
  row_timestamp :: time
  row_actor_id :: string
  row_actor_name :: string
  row_actor_type :: string
  row_evidence :: jmap
  row_vector_clock :: VectorClock
  row_boundary_node :: string
  row_correlation_id :: string
  row_received_at :: time
  row_processed_at :: time
  row_schema_version :: string
  row_created_at :: time

text \<open>
  The database behind \<^verbatim>\<open>s.db\<close>: the rows of \<^verbatim>\<open>events\<close> (\<^verbatim>\<open>id\<close> is the primary key),
  and the driver's answer where a statement fails: \<open>exec_error row\<close> is the error, if
  any, on an \<^verbatim>\<open>INSERT\<close> of these values (a lost connection, a value the column types
  of the schema refuse), \<open>query_error\<close> the error, if any, on a \<^verbatim>\<open>SELECT\<close>.
\<close>

record db =
  events_rows :: "Row list"
  exec_error :: "Row \<Rightarrow> string option"
  query_error :: "string option"

definition primary_key :: "db \<Rightarrow> bool" where
  "primary_key s = distinct (map row_id (events_rows s))"

text \<open>
  The values of the \<^verbatim>\<open>INSERT\<close> of \<^verbatim>\<open>UpsertEvent\<close> (\<^verbatim>\<open>$1\<close> to \<^verbatim>\<open>$14\<close>, and the column
  default \<^verbatim>\<open>NOW()\<close> for \<^verbatim>\<open>created_at\<close>). \<open>now\<close> is the service's \<^verbatim>\<open>time.Now().UTC()\<close>,
  \<open>db_now\<close> the database's \<^verbatim>\<open>NOW()\<close>. The two JSONB columns hold the values that
  \<^verbatim>\<open>json.Marshal\<close> encodes; it has no error on the values of \<open>any\<close>.
\<close>

definition insert_values :: "time \<Rightarrow> time \<Rightarrow> Event \<Rightarrow> Row" where
  "insert_values now db_now event =
     (let processedAt = (if \<not> IsZero (ProcessedAt (Metadata event))
                         then ProcessedAt (Metadata event) else now)
      in \<lparr>row_id = ID event,
          row_type = Type event,
          row_source = Source event,
          row_timestamp = Timestamp event,
          row_actor_id = ActorID (Actor event),
          row_actor_name = ActorName (Actor event),
          row_actor_type = ActorType (Actor event),
          row_evidence = Evidence event,
          row_vector_clock = VectorClock event,
          row_boundary_node = BoundaryNode (Metadata event),
          row_correlation_id = CorrelationID (Metadata event),
          row_received_at = ReceivedAt (Metadata event),
          row_processed_at = processedAt,
          row_schema_version = SchemaVersion (Metadata event),
          row_created_at = db_now\<rparr>)"

text \<open>
  \<^verbatim>\<open>ON CONFLICT (id) DO UPDATE SET type = EXCLUDED.type, ..., processed_at = EXCLUDED.processed_at\<close>:
  the eleven assignments of the statement, applied to the stored row.
\<close>

definition on_conflict_update :: "Row \<Rightarrow> Row \<Rightarrow> Row" where
  "on_conflict_update stored excluded =
     stored\<lparr>row_type := row_type excluded,
            row_source := row_source excluded,
            row_timestamp := row_timestamp excluded,
            row_actor_id := row_actor_id excluded,
            row_actor_name := row_actor_name excluded,
            row_actor_type := row_actor_type excluded,
            row_evidence := row_evidence excluded,
            row_vector_clock := row_vector_clock excluded,
            row_boundary_node := row_boundary_node excluded,
            row_correlation_id := row_correlation_id excluded,
            row_processed_at := row_processed_at excluded\<rparr>"

definition UpsertEvent :: "time \<Rightarrow> time \<Rightarrow> db \<Rightarrow> Event \<Rightarrow> error + db" where
  "UpsertEvent now db_now s event =
     (let excluded = insert_values now db_now event
      in case exec_error s excluded of
           Some err \<Rightarrow> Inl (Errorf (''failed to upsert event: '' @ err))
         | None \<Rightarrow>
             Inr (s\<lparr>events_rows :=
                    (if row_id excluded \<in> set (map row_id (events_rows s))
                     then map (\<lambda>stored. if row_id stored = row_id excluded
                                         then on_conflict_update stored excluded
                                         else stored) (events_rows s)
                     else events_rows s @ [excluded])\<rparr>))"

text \<open>
  The \<^verbatim>\<open>WHERE\<close> clause of the causality query for one \<^verbatim>\<open>(nodeID, timestamp)\<close>:
  \<^verbatim>\<open>boundary_node = $1 AND (vector_clock->>$1)::bigint <= $2\<close>. A row whose clock has
  no entry for the node yields NULL and is not counted.
\<close>

definition causality_where :: "string \<Rightarrow> int64 \<Rightarrow> Row \<Rightarrow> bool" where
  "causality_where node ts r =
     (row_boundary_node r = node \<and>
      (case vc_lookup (row_vector_clock r) node of None \<Rightarrow> False | Some v \<Rightarrow> v \<le>s ts))"

text \<open>The loop of \<^verbatim>\<open>CheckVectorClockCausality\<close> over the entries of \<open>vc\<close>, with the
  slice \<open>missing\<close> built so far; a failing query returns the error at once.\<close>

fun causality_loop :: "db \<Rightarrow> (string \<times> int64) list \<Rightarrow> string list \<Rightarrow> error + string list" where
  "causality_loop s [] missing = Inr missing"
| "causality_loop s ((node, ts) # rest) missing =
     (case query_error s of
        Some err \<Rightarrow> Inl (Errorf (''failed to check causality: '' @ err))
      | None \<Rightarrow>
          (let count = length (filter (causality_where node ts) (events_rows s))
           in causality_loop s rest (if count = 0 then missing @ [node] else missing)))"

definition CheckVectorClockCausality :: "db \<Rightarrow> VectorClock \<Rightarrow> error + bool \<times> string list" where
  "CheckVectorClockCausality s vc =
     (case causality_loop s vc [] of
        Inl err \<Rightarrow> Inl err
      | Inr missing \<Rightarrow> Inr (length missing = 0, missing))"

text \<open>
  A node entry is backed by the store when some persisted row satisfies the query's
  \<^verbatim>\<open>WHERE\<close> clause for it.
\<close>

definition backed :: "db \<Rightarrow> string \<times> int64 \<Rightarrow> bool" where
  "backed s e = list_ex (causality_where (fst e) (snd e)) (events_rows s)"

text \<open>
  The condition in the words of the specification: some persisted event whose
  vector-clock entry for the node is at most \<open>ts\<close>, whatever node recorded the event.
\<close>

definition spec_backed :: "db \<Rightarrow> string \<times> int64 \<Rightarrow> bool" where
  "spec_backed s e =
     list_ex (\<lambda>r. case vc_lookup (row_vector_clock r) (fst e) of
                    None \<Rightarrow> False | Some v \<Rightarrow> v \<le>s snd e) (events_rows s)"


section \<open>Validator (veto-service/internal/validator/validator.go)\<close>

record ValidationError =
  Check :: string
  ErrReason :: string

record CheckResult =
  Passed :: bool
  Reason :: string

text \<open>
  The validator's \<^verbatim>\<open>rdbClient\<close> as far as the validator sees it: what
  \<^verbatim>\<open>CheckCausality(ctx, vc)\<close> returns, the answer of the store
  (\<^verbatim>\<open>satisfied\<close>, \<^verbatim>\<open>missingNodes\<close>) or a transport error.
\<close>

record Validator =
  rdbClient :: "VectorClock \<Rightarrow> error + bool \<times> string list"

text \<open>
  What one call of \<^verbatim>\<open>Validate\<close> reads from outside: the wall clock of
  \<^verbatim>\<open>checkTemporal\<close>, and \<^verbatim>\<open>fmt\<close>'s rendering of a \<^verbatim>\<open>float64\<close> under \<^verbatim>\<open>%.2f\<close>.
\<close>

record val_env =
  val_now :: time
  sprintf_2f :: "real \<Rightarrow> string"

text \<open>\<^verbatim>\<open>%v\<close> of a \<^verbatim>\<open>[]string\<close>: the elements between brackets, separated by spaces.\<close>

fun join_space :: "string list \<Rightarrow> string" where
  "join_space [] = []"
| "join_space [x] = x"
| "join_space (x # y # ys) = x @ '' '' @ join_space (y # ys)"

definition sprintf_v :: "string list \<Rightarrow> string" where
  "sprintf_v xs = ''['' @ join_space xs @ '']''"

definition checkCausality :: "Validator \<Rightarrow> Event \<Rightarrow> error + CheckResult" where
  "checkCausality v event =
     (if length (VectorClock event) \<le> 1 then Inr \<lparr>Passed = True, Reason = []\<rparr>
      else case rdbClient v (VectorClock event) of
        Inl err \<Rightarrow> Inl err
      | Inr (satisfied, missingNodes) \<Rightarrow>
          if \<not> satisfied
          then Inr \<lparr>Passed = False,
                    Reason = ''causal dependencies not satisfied, missing nodes: ''
                             @ sprintf_v missingNodes\<rparr>
          else Inr \<lparr>Passed = True, Reason = []\<rparr>)"

definition checkActorExists :: "Validator \<Rightarrow> Event \<Rightarrow> error + CheckResult" where
  "checkActorExists v event = Inr \<lparr>Passed = True, Reason = []\<rparr>"

definition validatePayment :: "val_env \<Rightarrow> Event \<Rightarrow> error + CheckResult" where
  "validatePayment env event =
     (case as_float64 (Evidence event) ''amount'' of
        None \<Rightarrow> Inr \<lparr>Passed = False, Reason = ''payment amount is missing or invalid''\<rparr>
      | Some amount \<Rightarrow>
          if amount \<le> 0
          then Inr \<lparr>Passed = False,
                    Reason = ''payment amount must be positive, got: '' @ sprintf_2f env amount\<rparr>
          else if amount > 1000000
          then Inr \<lparr>Passed = False,
                    Reason = ''payment amount exceeds limit: '' @ sprintf_2f env amount\<rparr>
          else Inr \<lparr>Passed = True, Reason = []\<rparr>)"

definition validateLogin :: "val_env \<Rightarrow> Event \<Rightarrow> error + CheckResult" where
  "validateLogin env event = Inr \<lparr>Passed = True, Reason = []\<rparr>"

definition validateWithdrawal :: "val_env \<Rightarrow> Event \<Rightarrow> error + CheckResult" where
  "validateWithdrawal env event =
     (case as_float64 (Evidence event) ''amount'' of
        None \<Rightarrow> Inr \<lparr>Passed = False, Reason = ''withdrawal amount is missing or invalid''\<rparr>
      | Some amount \<Rightarrow>
          if amount \<le> 0
          then Inr \<lparr>Passed = False, Reason = ''withdrawal amount must be positive''\<rparr>
          else if amount > 10000
          then Inr \<lparr>Passed = False,
                    Reason = ''withdrawal amount exceeds daily limit: '' @ sprintf_2f env amount\<rparr>
          else Inr \<lparr>Passed = True, Reason = []\<rparr>)"

definition checkBusinessRules :: "val_env \<Rightarrow> Event \<Rightarrow> error + CheckResult" where
  "checkBusinessRules env event =
     (if Type event = ''payment_processed'' then validatePayment env event
      else if Type event = ''user_login'' then validateLogin env event
      else if Type event = ''withdrawal'' then validateWithdrawal env event
      else Inr \<lparr>Passed = True, Reason = []\<rparr>)"

definition checkTemporal :: "val_env \<Rightarrow> Event \<Rightarrow> error + CheckResult" where
  "checkTemporal env event =
     (let now = val_now env
      in if Timestamp event < now + (- 1) * Hour
         then Inr \<lparr>Passed = False,
                   Reason = ''event timestamp is too old (more than 1 hour in the past)''\<rparr>
         else if Timestamp event > now + 5 * Minute
         then Inr \<lparr>Passed = False, Reason = ''event timestamp is in the future''\<rparr>
         else Inr \<lparr>Passed = True, Reason = []\<rparr>)"

text \<open>
  \<^verbatim>\<open>Validate\<close>: the four checks in the order of the source. An error returned by a
  check ends the call at once with that error; a check that does not pass appends its
  entry to \<^verbatim>\<open>errors\<close> and the next check runs.
\<close>

definition Validate :: "Validator \<Rightarrow> val_env \<Rightarrow> Event \<Rightarrow> error + bool \<times> ValidationError list" where
  "Validate v env event =
     (case checkCausality v event of
        Inl causalityErr \<Rightarrow> Inl (Errorf (''causality check error: '' @ message causalityErr))
      | Inr causalityPassed \<Rightarrow>
     (let errors1 = (if \<not> Passed causalityPassed
                     then [] @ [\<lparr>Check = ''causality'', ErrReason = Reason causalityPassed\<rparr>]
                     else [])
      in case checkActorExists v event of
        Inl actorErr \<Rightarrow> Inl (Errorf (''actor check error: '' @ message actorErr))
      | Inr actorPassed \<Rightarrow>
     (let errors2 = (if \<not> Passed actorPassed
                     then errors1 @ [\<lparr>Check = ''actor_existence'', ErrReason = Reason actorPassed\<rparr>]
                     else errors1)
      in case checkBusinessRules env event of
        Inl businessErr \<Rightarrow> Inl (Errorf (''business rules check error: '' @ message businessErr))
      | Inr businessPassed \<Rightarrow>
     (let errors3 = (if \<not> Passed businessPassed
                     then errors2 @ [\<lparr>Check = ''business_rules'', ErrReason = Reason businessPassed\<rparr>]
                     else errors2)
      in case checkTemporal env event of
        Inl temporalErr \<Rightarrow> Inl (Errorf (''temporal check error: '' @ message temporalErr))
      | Inr temporalPassed \<Rightarrow>
     (let errors4 = (if \<not> Passed temporalPassed
                     then errors3 @ [\<lparr>Check = ''temporal'', ErrReason = Reason temporalPassed\<rparr>]
                     else errors3);
          passed = (length errors4 = 0)
      in Inr (passed, errors4))))))"

text \<open>The entry a check contributes to the failures list: none if it passed.\<close>

definition failure :: "string \<Rightarrow> CheckResult \<Rightarrow> ValidationError list" where
  "failure name r = (if Passed r then [] else [\<lparr>Check = name, ErrReason = Reason r\<rparr>])"


section \<open>Fracture archive (data-fracture-handler: pkg/models/fracture.go, internal/storage/cloudstorage.go)\<close>

text \<open>
  The UTC calendar fields of an instant, as \<^verbatim>\<open>t.Year()\<close>, \<^verbatim>\<open>t.Month()\<close>, \<^verbatim>\<open>t.Day()\<close> and
  \<^verbatim>\<open>t.Hour()\<close> of Go's \<^verbatim>\<open>time\<close> package give them for a \<^verbatim>\<open>time.Time\<close> in UTC
  (proleptic Gregorian calendar). \<open>div\<close> and \<open>mod\<close> on \<open>int\<close> round down, which is what
  the day count needs before the epoch.
\<close>

definition unix_days :: "time \<Rightarrow> int" where
  "unix_days t = (t div 1000000000) div 86400"

definition civil :: "time \<Rightarrow> int \<times> int \<times> int" where
  "civil t =
     (let z = unix_days t + 719468;
          era = z div 146097;
          doe = z - era * 146097;
          yoe = (doe - doe div 1460 + doe div 36524 - doe div 146096) div 365;
          y = yoe + era * 400;
          doy = doe - (365 * yoe + yoe div 4 - yoe div 100);
          mp = (5 * doy + 2) div 153;
          d = doy - (153 * mp + 2) div 5 + 1;
          m = (if mp < 10 then mp + 3 else mp - 9)
      in (if m \<le> 2 then y + 1 else y, m, d))"

definition Year :: "time \<Rightarrow> int" where
  "Year t = fst (civil t)"

definition Month :: "time \<Rightarrow> int" where
  "Month t = fst (snd (civil t))"

definition Day :: "time \<Rightarrow> int" where
  "Day t = snd (snd (civil t))"

definition Hour_of :: "time \<Rightarrow> int" where
  "Hour_of t = ((t div 1000000000) mod 86400) div 3600"

text \<open>\<^verbatim>\<open>%0<width>d\<close>: the sign first, then zeros up to the width, then the digits.\<close>

definition sprintf_0d :: "nat \<Rightarrow> int \<Rightarrow> string" where
  "sprintf_0d width n =
     (let sign = (if n < 0 then ''-'' else []);
          ds = string_of_nat (nat \<bar>n\<bar>)
      in sign @ replicate (width - length sign - length ds) (CHR ''0'') @ ds)"

record RejectionDetails =
  FailedChecks :: "string list"
  Reasons :: "string list"
  VetoNode :: string
  RejDuration :: string

record FractureContext =
  VEPSNodeID :: string
  CtxCorrelationID :: string
  CtxVectorClock :: VectorClock
  OriginalSource :: string
  CtxReceivedAt :: time
  CtxMetadata :: jmap

record FracturedEvent =
  FractureID :: uuid
  FractureTimestamp :: time
  FracturedEvent_Event :: Event
  Rejection :: RejectionDetails
  Context :: FractureContext

record FractureRequest =
  ReqEvent :: Event
  ReqFailedChecks :: "string list"
  ReqReasons :: "string list"
  ReqVetoNode :: string
  ReqDuration :: string
  ReqCorrelationID :: string
  ReqMetadata :: jmap

text \<open>What \<^verbatim>\<open>ToFracturedEvent\<close> reads from outside: \<^verbatim>\<open>uuid.New()\<close> and \<^verbatim>\<open>time.Now().UTC()\<close>.\<close>

record fracture_env =
  fracture_uuid :: uuid
  fracture_now :: time

definition ToFracturedEvent :: "fracture_env \<Rightarrow> FractureRequest \<Rightarrow> FracturedEvent" where
  "ToFracturedEvent env fr =
     \<lparr>FractureID = fracture_uuid env,
      FractureTimestamp = fracture_now env,
      FracturedEvent_Event = ReqEvent fr,
      Rejection = \<lparr>FailedChecks = ReqFailedChecks fr,
                   Reasons = ReqReasons fr,
                   VetoNode = ReqVetoNode fr,
                   RejDuration = ReqDuration fr\<rparr>,
      Context = \<lparr>VEPSNodeID = BoundaryNode (Metadata (ReqEvent fr)),
                 CtxCorrelationID = ReqCorrelationID fr,
                 CtxVectorClock = VectorClock (ReqEvent fr),
                 OriginalSource = Source (ReqEvent fr),
                 CtxReceivedAt = ReceivedAt (Metadata (ReqEvent fr)),
                 CtxMetadata = ReqMetadata fr\<rparr>\<rparr>"

text \<open>\<^verbatim>\<open>fmt.Sprintf("%04d/%02d/%02d/fractures-%02d.jsonl", Year, Month, Day, Hour)\<close>\<close>

definition generateObjectPath :: "time \<Rightarrow> string" where
  "generateObjectPath timestamp =
     sprintf_0d 4 (Year timestamp) @ ''/'' @ sprintf_0d 2 (Month timestamp) @ ''/'' @
     sprintf_0d 2 (Day timestamp) @ ''/fractures-'' @ sprintf_0d 2 (Hour_of timestamp) @ ''.jsonl''"

text \<open>
  The writer, with the object store as far as \<^verbatim>\<open>WriteFracture\<close> sees it: the error, if
  any, of \<^verbatim>\<open>writer.Write\<close> and of \<^verbatim>\<open>writer.Close\<close> on the object of a path.
  \<^verbatim>\<open>json.Marshal\<close> has no error on a \<^verbatim>\<open>FracturedEvent\<close>. The archive is the sequence of
  lines written so far, each with the object path it was written under and the record
  the line encodes.
\<close>

record CloudStorageWriter =
  bucketName :: string
  write_error :: "string \<Rightarrow> string option"
  close_error :: "string \<Rightarrow> string option"

type_synonym archive = "(string \<times> FracturedEvent) list"

definition WriteFracture :: "CloudStorageWriter \<Rightarrow> archive \<Rightarrow> FracturedEvent \<Rightarrow> error + archive" where
  "WriteFracture w arch fracture =
     (let objectPath = generateObjectPath (FractureTimestamp fracture)
      in case write_error w objectPath of
           Some err \<Rightarrow> Inl (Errorf (''failed to write to Cloud Storage: '' @ err))
         | None \<Rightarrow>
             (case close_error w objectPath of
                Some err \<Rightarrow> Inl (Errorf (''failed to close Cloud Storage writer: '' @ err))
              | None \<Rightarrow> Inr (arch @ [(objectPath, fracture)])))"


section \<open>Boundary router (boundary-adapter/internal/router/router.go)\<close>

text \<open>
  The router holds its two handlers, values of the interfaces \<^verbatim>\<open>IntegrityHandler\<close> and
  \<^verbatim>\<open>ContextHandler\<close>, and its timeout.
\<close>

record ('i, 'c) Router =
  integrityHandler :: 'i
  contextHandler :: 'c
  timeout :: duration

text \<open>\<^verbatim>\<open>router.New\<close>: a zero timeout is replaced by ten seconds.\<close>

definition New :: "'i \<Rightarrow> 'c \<Rightarrow> duration \<Rightarrow> ('i, 'c) Router" where
  "New integrity context timeout0 =
     (let timeout1 = (if timeout0 = 0 then 10 * Second else timeout0)
      in \<lparr>integrityHandler = integrity, contextHandler = context, timeout = timeout1\<rparr>)"

subsection \<open>Route as a transition system\<close>

text \<open>
  \<^verbatim>\<open>Route\<close> starts two goroutines and then waits. Its runs are the interleavings of the
  steps of three threads and of the deadline of \<^verbatim>\<open>routeCtx\<close>:

  \<^item> the integrity goroutine calls \<^verbatim>\<open>SendToVeto\<close>, records the outcome in \<^verbatim>\<open>result\<close>,
    sends it on \<^verbatim>\<open>integrityDone\<close> (buffered, capacity 1) and, deferred, calls \<^verbatim>\<open>wg.Done()\<close>;
  \<^item> the context goroutine calls \<^verbatim>\<open>SendToRDB\<close>, records the outcome and, deferred,
    calls \<^verbatim>\<open>wg.Done()\<close>;
  \<^item> the caller's thread sits in the \<^verbatim>\<open>select\<close>, then, if it received \<^verbatim>\<open>nil\<close>, in
    \<^verbatim>\<open>wg.Wait()\<close>, and then returns.

  Time is abstracted: the deadline may pass at any moment, and a handler call may return
  at any moment with any outcome, or never.
\<close>

datatype integrity_pc =
    ICalling                    \<comment> \<open>started, \<^verbatim>\<open>SendToVeto\<close> has not returned\<close>
  | ISending "error option"     \<comment> \<open>outcome recorded in \<^verbatim>\<open>result\<close>, about to send it\<close>
  | IDeferred                   \<comment> \<open>sent, about to run the deferred \<^verbatim>\<open>wg.Done()\<close>\<close>
  | IExited

datatype context_pc =
    CCalling                    \<comment> \<open>started, \<^verbatim>\<open>SendToRDB\<close> has not returned\<close>
  | CDeferred                   \<comment> \<open>outcome recorded, about to run the deferred \<^verbatim>\<open>wg.Done()\<close>\<close>
  | CExited

datatype main_pc =
    MSelect                     \<comment> \<open>blocked in the \<^verbatim>\<open>select\<close>\<close>
  | MWait                       \<comment> \<open>received \<^verbatim>\<open>nil\<close>, blocked in \<^verbatim>\<open>wg.Wait()\<close>\<close>
  | MReturned "error option"    \<comment> \<open>\<^verbatim>\<open>Route\<close> has returned \<^verbatim>\<open>(result, err)\<close>\<close>

text \<open>
  The state of one \<^verbatim>\<open>Route\<close> call. \<open>result\<close> is the \<^verbatim>\<open>RouteResult\<close> that all three
  threads share through the pointer; its \<^verbatim>\<open>Duration\<close> is a time measurement and is
  left as it is. \<open>ctx_err\<close> is \<^verbatim>\<open>routeCtx.Err()\<close>: \<open>None\<close> until the context is
  done.
\<close>

record route_state =
  ipc :: integrity_pc
  cpc :: context_pc
  mpc :: main_pc
  integrityDone :: "error option option"
  ctx_err :: "string option"
  wg :: nat
  result :: RouteResult

definition Route_init :: "Event \<Rightarrow> route_state" where
  "Route_init event =
     \<lparr>ipc = ICalling, cpc = CCalling, mpc = MSelect, integrityDone = None, ctx_err = None,
      wg = 2,
      result = \<lparr>RouteEvent = event, IntegritySuccess = False, IntegrityError = None,
                ContextSuccess = False, ContextError = None, Duration = 0\<rparr>\<rparr>"

datatype action =
    IntegrityReturns "error option"   \<comment> \<open>\<^verbatim>\<open>SendToVeto\<close> returns \<^verbatim>\<open>err\<close>\<close>
  | IntegritySends                    \<comment> \<open>\<^verbatim>\<open>integrityDone <- err\<close>\<close>
  | IntegrityExits                    \<comment> \<open>deferred \<^verbatim>\<open>wg.Done()\<close>\<close>
  | ContextReturns "error option"     \<comment> \<open>\<^verbatim>\<open>SendToRDB\<close> returns \<^verbatim>\<open>err\<close>\<close>
  | ContextExits                      \<comment> \<open>deferred \<^verbatim>\<open>wg.Done()\<close>\<close>
  | ContextDone string                \<comment> \<open>\<^verbatim>\<open>routeCtx\<close> is done, with this \<^verbatim>\<open>Err()\<close>\<close>
  | MainReceives                      \<comment> \<open>\<^verbatim>\<open>case err := <-integrityDone\<close>\<close>
  | MainSeesDone                      \<comment> \<open>\<^verbatim>\<open>case <-routeCtx.Done()\<close>\<close>
  | MainWaitEnds                      \<comment> \<open>\<^verbatim>\<open>wg.Wait()\<close> returns, the rest of \<^verbatim>\<open>Route\<close> runs\<close>

text \<open>One step; \<open>None\<close> when the action is not enabled in the state.\<close>

fun Route_step :: "action \<Rightarrow> route_state \<Rightarrow> route_state option" where
  "Route_step (IntegrityReturns err) s =
     (if ipc s = ICalling
      then Some (s\<lparr>ipc := ISending err,
                   result := (case err of
                                Some e \<Rightarrow> (result s)\<lparr>IntegrityError := Some e\<rparr>
                              | None \<Rightarrow> (result s)\<lparr>IntegritySuccess := True\<rparr>)\<rparr>)
      else None)"
| "Route_step IntegritySends s =
     (case ipc s of
        ISending err \<Rightarrow>
          (if integrityDone s = None
           then Some (s\<lparr>ipc := IDeferred, integrityDone := Some err\<rparr>)
           else None)
      | _ \<Rightarrow> None)"
| "Route_step IntegrityExits s =
     (if ipc s = IDeferred then Some (s\<lparr>ipc := IExited, wg := wg s - 1\<rparr>) else None)"
| "Route_step (ContextReturns err) s =
     (if cpc s = CCalling
      then Some (s\<lparr>cpc := CDeferred,
                   result := (case err of
                                Some e \<Rightarrow> (result s)\<lparr>ContextError := Some e\<rparr>
                              | None \<Rightarrow> (result s)\<lparr>ContextSuccess := True\<rparr>)\<rparr>)
      else None)"
| "Route_step ContextExits s =
     (if cpc s = CDeferred then Some (s\<lparr>cpc := CExited, wg := wg s - 1\<rparr>) else None)"
| "Route_step (ContextDone e) s =
     (if ctx_err s = None then Some (s\<lparr>ctx_err := Some e\<rparr>) else None)"
| "Route_step MainReceives s =
     (if mpc s = MSelect
      then (case integrityDone s of
              None \<Rightarrow> None
            | Some (Some e) \<Rightarrow>
                Some (s\<lparr>integrityDone := None,
                        mpc := MReturned (Some (Errorf (''integrity path failed: '' @ message e)))\<rparr>)
            | Some None \<Rightarrow> Some (s\<lparr>integrityDone := None, mpc := MWait\<rparr>))
      else None)"
| "Route_step MainSeesDone s =
     (if mpc s = MSelect
      then (case ctx_err s of
              None \<Rightarrow> None
            | Some e \<Rightarrow>
                Some (s\<lparr>mpc := MReturned
                         (Some (Errorf (''integrity path timeout exceeded: '' @ e)))\<rparr>))
      else None)"
| "Route_step MainWaitEnds s =
     (if mpc s = MWait \<and> wg s = 0
      then (if \<not> IntegritySuccess (result s)
            then Some (s\<lparr>mpc := MReturned (Some (Errorf ''integrity validation failed''))\<rparr>)
            else Some (s\<lparr>mpc := MReturned None\<rparr>))
      else None)"

text \<open>A run: the actions taken one after the other, from a state.\<close>

fun Route_run :: "action list \<Rightarrow> route_state \<Rightarrow> route_state option" where
  "Route_run [] s = Some s"
| "Route_run (a # as) s =
     (case Route_step a s of None \<Rightarrow> None | Some s' \<Rightarrow> Route_run as s')"

text \<open>The Context Path is in flight until its goroutine has exited.\<close>

definition context_in_flight :: "route_state \<Rightarrow> bool" where
  "context_in_flight s = (cpc s \<noteq> CExited)"

text \<open>The invariant of \<^verbatim>\<open>Route\<close> that the proofs carry through every run.\<close>

definition Route_inv :: "route_state \<Rightarrow> bool" where
  "Route_inv s =
     (wg s = (if ipc s = IExited then 0 else 1) + (if cpc s = CExited then 0 else 1) \<and>
      (cpc s = CCalling \<longrightarrow>
         \<not> ContextSuccess (result s) \<and> ContextError (result s) = None) \<and>
      (cpc s \<noteq> CCalling \<longrightarrow>
         ContextSuccess (result s) = (ContextError (result s) = None)) \<and>
      (mpc s = MReturned None \<longrightarrow> wg s = 0 \<and> IntegritySuccess (result s)))"


section \<open>Configuration of the boundary adapter (cmd/server/main.go, loadConfig)\<close>

text \<open>
  What \<^verbatim>\<open>loadConfig\<close> reads from outside: the process environment (\<^verbatim>\<open>os.Getenv\<close> gives
  the empty string for an unset variable), the standard library's
  \<^verbatim>\<open>time.ParseDuration\<close>, and \<^verbatim>\<open>time.Now().Unix()\<close>.
\<close>

record host =
  getenv :: "string \<Rightarrow> string"
  ParseDuration :: "string \<Rightarrow> error + duration"
  unix_seconds :: int

record Config =
  Port :: string
  RouterTimeout :: duration
  NodeID :: string
  RDBUpdaterURL :: string
  VetoServiceURL :: string

text \<open>\<^verbatim>\<open>loadConfig\<close> returns the configuration; \<^verbatim>\<open>os.Setenv\<close> changes the environment.\<close>

definition loadConfig :: "host \<Rightarrow> Config \<times> host" where
  "loadConfig h =
     (let port = (if getenv h ''PORT'' = [] then ''8080'' else getenv h ''PORT'');
          timeoutStr = getenv h ''ROUTER_TIMEOUT_MS'';
          timeout0 =
            (if timeoutStr \<noteq> []
             then (case ParseDuration h (timeoutStr @ ''ms'') of
                     Inr ms \<Rightarrow> ms
                   | Inl err \<Rightarrow> 50 * Millisecond)
             else 50 * Millisecond);
          node = (if getenv h ''VEPS_NODE_ID'' = []
                  then ''boundary-adapter-'' @ sprintf_0d 0 (unix_seconds h)
                  else getenv h ''VEPS_NODE_ID'');
          h' = (if getenv h ''VEPS_NODE_ID'' = []
                then h\<lparr>getenv := (getenv h)(''VEPS_NODE_ID'' := node)\<rparr>
                else h);
          rdbUpdaterURL = (if getenv h ''RDB_UPDATER_URL'' = [] then ''http://localhost:8081''
                           else getenv h ''RDB_UPDATER_URL'');
          vetoServiceURL = (if getenv h ''VETO_SERVICE_URL'' = [] then ''http://localhost:8082''
                            else getenv h ''VETO_SERVICE_URL'')
      in (\<lparr>Port = port, RouterTimeout = timeout0, NodeID = node,
           RDBUpdaterURL = rdbUpdaterURL, VetoServiceURL = vetoServiceURL\<rparr>, h'))"

text \<open>
  The timeout of the router that \<^verbatim>\<open>main\<close> builds:
  \<^verbatim>\<open>router.New(vetoClient, rdbClient, config.RouterTimeout)\<close>.
\<close>

definition main_router_timeout :: "host \<Rightarrow> duration" where
  "main_router_timeout h = timeout (New () () (RouterTimeout (fst (loadConfig h))))"


section \<open>Concrete inputs for the normalizer\<close>

definition ex_norm :: Normalizer where
  "ex_norm = \<lparr>nodeID = ''veps-1''\<rparr>"

definition ex_env :: norm_env where
  "ex_env = \<lparr>now_timestamp = 1765359933000000000, now_clock = 1765359933000000001,
              now_received = 1765359933000000002, uuid_event = ''e1'',
              uuid_correlation = ''c1''\<rparr>"

text \<open>A payment by user \<open>u1\<close> that carries the caller's vector clock \<open>incoming\<close>.\<close>

definition ex_raw :: "jmap \<Rightarrow> RawEvent" where
  "ex_raw incoming =
     \<lparr>Data = Some [(''type'', AString ''payment_processed''), (''user_id'', AString ''u1''),
                   (''amount'', AFloat 100), (''vector_clock'', AMap incoming)],
      RawSource = ''test'', RawTimestamp = zeroTime\<rparr>"

definition ex_event :: "VectorClock \<Rightarrow> Event" where
  "ex_event vc =
     \<lparr>ID = ''e1'', Type = ''payment_processed'', Source = ''test'',
      Timestamp = 1765359933000000000,
      Actor = \<lparr>ActorID = ''u1'', ActorName = ''u1'', ActorType = ''user'', ActorMetadata = []\<rparr>,
      Evidence = [(''amount'', AFloat 100)],
      VectorClock = vc,
      Metadata = \<lparr>ReceivedAt = 1765359933000000002, ProcessedAt = zeroTime,
                  BoundaryNode = ''veps-1'', CorrelationID = ''c1'', RetryCount = 0,
                  SchemaVersion = ''1.0''\<rparr>\<rparr>"

text \<open>A raw event whose \<open>type\<close> is the empty string: \<^verbatim>\<open>ValidateSchema\<close> accepts it,
  \<^verbatim>\<open>Normalize\<close> does not.\<close>

definition ex_raw_untyped :: RawEvent where
  "ex_raw_untyped =
     \<lparr>Data = Some [(''type'', AString []), (''user_id'', AString ''u2'')],
      RawSource = ''test'', RawTimestamp = zeroTime\<rparr>"

text \<open>A batch of 101 raw events: a hundred valid ones, then one that fails.\<close>

definition ex_batch_101 :: "RawEvent list" where
  "ex_batch_101 = replicate 100 (ex_raw []) @ [ex_raw_untyped]"

text \<open>A handler whose router reports success for every event it is given.\<close>

definition ex_handler :: Handler where
  "ex_handler =
     \<lparr>normalizer = ex_norm,
      router_RouteBatch =
        (\<lambda>events maxConcurrent.
           map (\<lambda>e. Some \<lparr>RouteEvent = e, IntegritySuccess = True, IntegrityError = None,
                           ContextSuccess = True, ContextError = None, Duration = 0\<rparr>) events)\<rparr>"


section \<open>Concrete store states\<close>

text \<open>A database that answers every statement.\<close>

definition db_of :: "Row list \<Rightarrow> db" where
  "db_of rs = \<lparr>events_rows = rs, exec_error = (\<lambda>r. None), query_error = None\<rparr>"

text \<open>The event \<open>e1\<close> as node \<open>B\<close> recorded it after merging an entry of node \<open>A\<close>.\<close>

definition ex_row :: Row where
  "ex_row =
     \<lparr>row_id = ''e1'', row_type = ''payment_processed'', row_source = ''test'',
      row_timestamp = 1765359933000000000,
      row_actor_id = ''u1'', row_actor_name = ''u1'', row_actor_type = ''user'',
      row_evidence = [(''amount'', AFloat 100)],
      row_vector_clock = [(''B'', 2), (''A'', 1)],
      row_boundary_node = ''B'', row_correlation_id = ''c1'',
      row_received_at = 1765359933000000002, row_processed_at = 1765359933000000003,
      row_schema_version = ''1.0'', row_created_at = 1765359933000000004\<rparr>"

text \<open>An event with the same id, received later and under another schema version.\<close>

definition ex_event_again :: Event where
  "ex_event_again =
     \<lparr>ID = ''e1'', Type = ''withdrawal'', Source = ''retry'',
      Timestamp = 1765359999000000000,
      Actor = \<lparr>ActorID = ''u2'', ActorName = ''Bob'', ActorType = ''service'', ActorMetadata = []\<rparr>,
      Evidence = [(''amount'', AFloat 5)],
      VectorClock = [(''B'', 9)],
      Metadata = \<lparr>ReceivedAt = 1765359999000000001, ProcessedAt = zeroTime,
                  BoundaryNode = ''C'', CorrelationID = ''c2'', RetryCount = 1,
                  SchemaVersion = ''2.0''\<rparr>\<rparr>"

text \<open>The stored row after the upsert of \<open>ex_event_again\<close> at time 1765360000000000000.\<close>

definition ex_row_after :: Row where
  "ex_row_after =
     \<lparr>row_id = ''e1'', row_type = ''withdrawal'', row_source = ''retry'',
      row_timestamp = 1765359999000000000,
      row_actor_id = ''u2'', row_actor_name = ''Bob'', row_actor_type = ''service'',
      row_evidence = [(''amount'', AFloat 5)],
      row_vector_clock = [(''B'', 9)],
      row_boundary_node = ''C'', row_correlation_id = ''c2'',
      row_received_at = 1765359933000000002, row_processed_at = 1765360000000000000,
      row_schema_version = ''1.0'', row_created_at = 1765359933000000004\<rparr>"



section \<open>Concrete inputs for the validator\<close>

text \<open>
  \<^verbatim>\<open>%.2f\<close> of a finite \<^verbatim>\<open>float64\<close> that is not a negative zero: the value rounded to
  hundredths, ties to even, in decimal with two fraction digits.
\<close>

definition round_half_even :: "real \<Rightarrow> int" where
  "round_half_even y =
     (let f = \<lfloor>y\<rfloor>; d = y - of_int f
      in if d < 1 / 2 then f else if d > 1 / 2 then f + 1
         else if even f then f else f + 1)"

definition decimal_2f :: "real \<Rightarrow> string" where
  "decimal_2f x =
     (let n = nat (round_half_even (\<bar>x\<bar> * 100))
      in (if x < 0 then ''-'' else []) @ string_of_nat (n div 100) @ ''.''
         @ [digit (n mod 100 div 10), digit (n mod 10)])"

text \<open>A store client that reports node \<open>nodeX\<close> missing, and one whose call fails.\<close>

definition ex_validator :: Validator where
  "ex_validator = \<lparr>rdbClient = (\<lambda>vc. Inr (False, [''nodeX'']))\<rparr>"

definition ex_validator_down :: Validator where
  "ex_validator_down = \<lparr>rdbClient = (\<lambda>vc. Inl (Errorf ''failed to send request''))\<rparr>"

text \<open>The validator's clock: three hours after the example event's timestamp.\<close>

definition ex_val_env :: val_env where
  "ex_val_env = \<lparr>val_now = 1765359933000000000 + 3 * Hour, sprintf_2f = decimal_2f\<rparr>"

text \<open>A payment of 5000000 whose clock names a second node.\<close>

definition ex_big_payment :: Event where
  "ex_big_payment =
     (ex_event [(''veps-1'', 1765359933000000002), (''nodeX'', 999999999)])
       \<lparr>Evidence := [(''amount'', AFloat 5000000)]\<rparr>"


section \<open>Concrete inputs for the fracture archive\<close>

text \<open>
  The rejection of the example event (timestamp 2025-12-10 09:45:33 UTC) as too old,
  received by the fracture handler three hours later, at 12:45:33 UTC.
\<close>

definition ex_fracture_request :: FractureRequest where
  "ex_fracture_request =
     \<lparr>ReqEvent = ex_event [(''veps-1'', 1765359933000000002)],
      ReqFailedChecks = [''temporal''],
      ReqReasons = [''event timestamp is too old (more than 1 hour in the past)''],
      ReqVetoNode = ''veto-1'', ReqDuration = ''1ms'', ReqCorrelationID = ''c1'',
      ReqMetadata = []\<rparr>"

definition ex_fracture_env :: fracture_env where
  "ex_fracture_env = \<lparr>fracture_uuid = ''f1'', fracture_now = 1765359933000000000 + 3 * Hour\<rparr>"

definition ex_writer :: CloudStorageWriter where
  "ex_writer = \<lparr>bucketName = ''veps-fractures'', write_error = (\<lambda>p. None),
                 close_error = (\<lambda>p. None)\<rparr>"


section \<open>Concrete process environments\<close>

text \<open>
  \<^verbatim>\<open>time.ParseDuration\<close> on a string of decimal digits followed by \<^verbatim>\<open>ms\<close>: that many
  milliseconds. Every other string is reported as an error here, though the library
  accepts more (fractions, several units); the stand-in is applied to digit strings only.
\<close>

definition digit_value :: "char \<Rightarrow> int" where
  "digit_value c = int (length (takeWhile (\<lambda>d. d \<noteq> c) ''0123456789''))"

definition ParseDuration_digits_ms :: "string \<Rightarrow> error + duration" where
  "ParseDuration_digits_ms s =
     (let ds = take (length s - 2) s
      in if drop (length s - 2) s = ''ms'' \<and> ds \<noteq> [] \<and> (\<forall>c \<in> set ds. c \<in> set ''0123456789'')
         then Inr (fold (\<lambda>c n. 10 * n + digit_value c) ds 0 * Millisecond)
         else Inl (Errorf (''time: invalid duration '' @ s)))"

text \<open>A process whose only variable is \<^verbatim>\<open>ROUTER_TIMEOUT_MS\<close>, set to \<open>v\<close> (unset if empty).\<close>

definition ex_host :: "string \<Rightarrow> host" where
  "ex_host v =
     \<lparr>getenv = (\<lambda>k. if k = ''ROUTER_TIMEOUT_MS'' then v else []),
      ParseDuration = ParseDuration_digits_ms,
      unix_seconds = 1765359933\<rparr>"


section \<open>A run of Route\<close>

text \<open>The Integrity Path succeeds at once; the store answers the upsert with status 500.\<close>

definition ex_run_success :: "action list" where
  "ex_run_success =
     [IntegrityReturns None, IntegritySends, IntegrityExits, MainReceives,
      ContextReturns (Some (Errorf ''RDB Updater returned status 500'')), ContextExits,
      MainWaitEnds]"


section \<open>Vector-clock algebra\<close>

subsection \<open>Merge\<close>

lemma Merge_step_lookup:
  "map_of (Merge_step e vc) k =
     (if k = fst e \<and> vc_get vc k <s snd e then Some (snd e) else map_of vc k)"
  by (auto simp add: Merge_step_def vc_set_def update_conv')

text \<open>
  One pass of the loop over a clock with pairwise different keys touches each key at
  most once, so the entry for \<open>k\<close> after the loop is decided by the single entry of
  \<open>other\<close> for \<open>k\<close>, if there is one.
\<close>

lemma fold_Merge_step_lookup:
  "distinct (map fst other) \<Longrightarrow>
   map_of (fold Merge_step other vc) k =
     (case map_of other k of
        None \<Rightarrow> map_of vc k
      | Some b \<Rightarrow> if vc_get vc k <s b then Some b else map_of vc k)"
proof (induction other arbitrary: vc)
  case Nil
  then show ?case by simp
next
  case (Cons e other)
  obtain n ts where e: "e = (n, ts)" by (cases e)
  from Cons.prems have d: "distinct (map fst other)" and nin: "n \<notin> fst ` set other"
    by (auto simp: e)
  show ?case
  proof (cases "k = n")
    case True
    with nin have none: "map_of other k = None" by (simp add: map_of_eq_None_iff)
    have "map_of (fold Merge_step other (Merge_step e vc)) k = map_of (Merge_step e vc) k"
      by (simp add: Cons.IH [OF d] none)
    then show ?thesis
      by (simp add: e True Merge_step_lookup)
  next
    case False
    have same: "map_of (Merge_step e vc) k = map_of vc k"
      using False by (simp add: e Merge_step_lookup)
    then have "vc_get (Merge_step e vc) k = vc_get vc k"
      by (simp add: vc_get_def)
    then show ?thesis using False same
      by (simp add: Cons.IH [OF d] e split: option.splits)
  qed
qed

text \<open>
  Claim C5, as amended. After \<open>vc.Merge(other)\<close>: a key present in both clocks holds
  the signed maximum of the two previous values; a key present only in \<open>vc\<close> is
  unchanged; a key present only in \<open>other\<close> is copied with \<open>other\<close>'s value when that
  value is positive, and stays absent when the value is zero or negative (the source
  compares against \<open>vc[nodeID]\<close>, which reads 0 for a missing key).
\<close>

theorem Merge_entries:
  assumes "wf_vc other"
  shows "vc_lookup (Merge vc other) k =
     (case (vc_lookup vc k, vc_lookup other k) of
        (None, None) \<Rightarrow> None
      | (Some a, None) \<Rightarrow> Some a
      | (None, Some b) \<Rightarrow> (if 0 <s b then Some b else None)
      | (Some a, Some b) \<Rightarrow> Some (smax a b))"
  using assms
  by (simp add: wf_vc_def vc_lookup_def Merge_def fold_Merge_step_lookup vc_get_def smax_def
      split: option.splits)

theorem Merge_entries_witness:
  "wf_vc [(''n'', - 5), (''a'', 7), (''b'', 2)] \<and>
   vc_lookup (Merge [(''a'', 3), (''c'', - 1)] [(''n'', - 5), (''a'', 7), (''b'', 2)]) ''a'' = Some 7 \<and>
   vc_lookup (Merge [(''a'', 3), (''c'', - 1)] [(''n'', - 5), (''a'', 7), (''b'', 2)]) ''b'' = Some 2 \<and>
   vc_lookup (Merge [(''a'', 3), (''c'', - 1)] [(''n'', - 5), (''a'', 7), (''b'', 2)]) ''c'' = Some (- 1) \<and>
   vc_lookup (Merge [(''a'', 3), (''c'', - 1)] [(''n'', - 5), (''a'', 7), (''b'', 2)]) ''n'' = None"
  using Merge_entries [of "[(''n'', - 5), (''a'', 7), (''b'', 2)]" "[(''a'', 3), (''c'', - 1)]" "''a''"]
    Merge_entries [of "[(''n'', - 5), (''a'', 7), (''b'', 2)]" "[(''a'', 3), (''c'', - 1)]" "''b''"]
    Merge_entries [of "[(''n'', - 5), (''a'', 7), (''b'', 2)]" "[(''a'', 3), (''c'', - 1)]" "''c''"]
    Merge_entries [of "[(''n'', - 5), (''a'', 7), (''b'', 2)]" "[(''a'', 3), (''c'', - 1)]" "''n''"]
  by (simp add: wf_vc_def vc_lookup_def smax_def word_sless_alt)

text \<open>
  Claim C5 as stated fails: the key \<open>n\<close> is present only in \<open>other\<close>, with the counter
  0 (and \<open>m\<close> with the counter -5), and is not copied into the empty clock.
\<close>

theorem Merge_copies_every_new_key_counterexample:
  "vc_lookup [(''n'', 0)] ''n'' = Some 0 \<and> vc_lookup [] ''n'' = None \<and>
   vc_lookup (Merge [] [(''n'', 0)]) ''n'' = None \<and>
   vc_lookup [(''m'', - 5)] ''m'' = Some (- 5) \<and>
   vc_lookup (Merge [] [(''m'', - 5)]) ''m'' = None"
  by (simp add: Merge_def Merge_step_def vc_get_def vc_set_def vc_lookup_def word_sless_alt)

subsection \<open>HappensBefore\<close>

text \<open>The loop in closed form: what it returns from any pair of flags.\<close>

lemma HappensBefore_loop_char:
  "HappensBefore_loop xs other le sl =
     ((\<forall>(n, ts) \<in> set xs. \<exists>ots. vc_lookup other n = Some ots \<and> ts \<le>s ots) \<and>
      (le \<or> xs \<noteq> []) \<and>
      (sl \<or> (\<exists>(n, ts) \<in> set xs. \<exists>ots. vc_lookup other n = Some ots \<and> ts <s ots)))"
proof (induction xs arbitrary: le sl)
  case Nil
  then show ?case by simp
next
  case (Cons e xs)
  obtain n ts where e: "e = (n, ts)" by (cases e)
  show ?case
  proof (cases "vc_lookup other n")
    case None
    then show ?thesis by (simp add: e)
  next
    case (Some ots)
    then show ?thesis
      by (auto simp add: e Cons.IH signed.not_less)
  qed
qed

lemma HappensBefore_char:
  "HappensBefore vc other =
     ((\<forall>(n, ts) \<in> set vc. \<exists>ots. vc_lookup other n = Some ots \<and> ts \<le>s ots) \<and>
      (\<exists>(n, ts) \<in> set vc. \<exists>ots. vc_lookup other n = Some ots \<and> ts <s ots))"
  by (auto simp add: HappensBefore_def HappensBefore_loop_char)

lemma wf_vc_lookup: "wf_vc vc \<Longrightarrow> (n, ts) \<in> set vc \<Longrightarrow> vc_lookup vc n = Some ts"
  by (simp add: wf_vc_def vc_lookup_def)

lemma vc_lookup_mem: "vc_lookup vc n = Some ts \<Longrightarrow> (n, ts) \<in> set vc"
  by (simp add: vc_lookup_def map_of_SomeD)

lemma HappensBefore_irrefl: "wf_vc a \<Longrightarrow> \<not> HappensBefore a a"
  by (auto simp add: HappensBefore_char dest: wf_vc_lookup)

lemma HappensBefore_asym:
  assumes "wf_vc a" and ab: "HappensBefore a b" and ba: "HappensBefore b a"
  shows False
proof -
  from ab obtain n ts ots where m: "(n, ts) \<in> set a" and l: "vc_lookup b n = Some ots"
    and lt: "ts <s ots"
    by (auto simp add: HappensBefore_char)
  from l have "(n, ots) \<in> set b" by (rule vc_lookup_mem)
  with ba obtain x where x: "vc_lookup a n = Some x" and le: "ots \<le>s x"
    by (auto simp add: HappensBefore_char)
  from assms(1) m have "vc_lookup a n = Some ts" by (rule wf_vc_lookup)
  with x have "x = ts" by simp
  with le lt show False by simp
qed

text \<open>
  Claim C9. For vector clocks as Go maps hold them (pairwise different keys):
  \<open>a.HappensBefore(a)\<close> is false, \<open>a.HappensBefore(b)\<close> and \<open>b.HappensBefore(a)\<close> are
  never both true, and the empty clock happens-before no clock.
\<close>

theorem HappensBefore_strict:
  assumes "wf_vc a"
  shows "\<not> HappensBefore a a \<and> \<not> (HappensBefore a b \<and> HappensBefore b a) \<and>
         \<not> HappensBefore [] b"
  using assms HappensBefore_irrefl HappensBefore_asym
  by (auto simp add: HappensBefore_def)

theorem HappensBefore_strict_witness:
  "wf_vc [(''n1'', 3), (''n2'', 5)] \<and>
   HappensBefore [(''n1'', 3), (''n2'', 5)] [(''n2'', 5), (''n1'', 4), (''n3'', 1)] \<and>
   \<not> HappensBefore [(''n1'', 3), (''n2'', 5)] [(''n1'', 3), (''n2'', 5)] \<and>
   \<not> HappensBefore [(''n2'', 5), (''n1'', 4), (''n3'', 1)] [(''n1'', 3), (''n2'', 5)]"
  using HappensBefore_strict [of "[(''n1'', 3), (''n2'', 5)]" "[(''n2'', 5), (''n1'', 4), (''n3'', 1)]"]
  by (simp add: wf_vc_def HappensBefore_def vc_lookup_def)

section \<open>Normalizer: the vector-clock stamp\<close>

lemma sless_succ:
  assumes "(x :: int64) \<noteq> MaxInt64"
  shows "x <s x + 1"
proof -
  have ne: "sint x \<noteq> 9223372036854775807"
  proof
    assume "sint x = 9223372036854775807"
    then have "sint x = sint (9223372036854775807 :: int64)" by simp
    then have "x = 9223372036854775807" by (rule signed_word_eqI)
    with assms show False by (simp add: MaxInt64_def)
  qed
  have lt: "sint x < 2 ^ 63" using sint_lt [of x] by simp
  have ge: "- (2 ^ 63) \<le> sint x" using sint_ge [of x] by simp
  have "sint (x + 1) = signed_take_bit 63 (sint x + 1)"
    by (simp add: sint_word_ariths)
  also have "\<dots> = sint x + 1"
    using ne lt ge by (simp add: signed_take_bit_int_eq_self)
  finally show ?thesis by (simp add: word_sless_alt)
qed

lemma parseVectorClock_keys:
  "k \<in> fst ` set (parseVectorClock f raw) \<Longrightarrow> k \<in> fst ` set raw"
  by (induction f raw rule: parseVectorClock.induct) (auto split: any.splits)

lemma parseVectorClock_distinct:
  "distinct (map fst raw) \<Longrightarrow> distinct (map fst (parseVectorClock f raw))"
proof (induction f raw rule: parseVectorClock.induct)
  case (1 f)
  then show ?case by simp
next
  case (2 f node "value" raw)
  then show ?case
    using parseVectorClock_keys [of node f raw]
    by (auto split: any.splits)
qed

lemma Increment_lookup_own:
  "vc_lookup (Increment vc k) k = Some (vc_get vc k + 1)"
  by (simp add: Increment_def vc_lookup_def vc_set_def update_conv')

lemma Merge_get:
  "wf_vc other \<Longrightarrow>
   vc_get (Merge vc other) k =
     (case vc_lookup other k of
        None \<Rightarrow> vc_get vc k
      | Some b \<Rightarrow> smax (vc_get vc k) b)"
  by (simp add: wf_vc_def vc_get_def vc_lookup_def Merge_def fold_Merge_step_lookup smax_def
      split: option.splits)

lemma vc_get_single: "vc_get [(k, v)] k = v"
  by (simp add: vc_get_def)

text \<open>The own entry after the stamp: the larger of the clock reading and the caller's
  entry for this node, plus one (wrapping).\<close>

lemma stampVectorClock_own:
  assumes "as_map data ''vector_clock'' = Some incomingVC"
    and "distinct (map fst incomingVC)"
  shows "vc_lookup (stampVectorClock f n env data) (nodeID n) =
     Some ((case vc_lookup (parseVectorClock f incomingVC) (nodeID n) of
              None \<Rightarrow> UnixNano (now_clock env)
            | Some e \<Rightarrow> smax (UnixNano (now_clock env)) e) + 1)"
proof -
  have wf: "wf_vc (parseVectorClock f incomingVC)"
    using assms(2) by (simp add: wf_vc_def parseVectorClock_distinct)
  show ?thesis
    using assms(1)
    by (simp add: stampVectorClock_def Increment_lookup_own Merge_get [OF wf] vc_get_single
        split: option.splits)
qed

lemma Normalize_VectorClock:
  "Normalize f n env raw = Inr ev \<Longrightarrow> Data raw = Some data \<Longrightarrow>
   VectorClock ev = stampVectorClock f n env data"
  by (auto simp add: Normalize_def split: if_splits option.splits sum.splits)

lemmas normalizer_eval =
  Normalize_def ValidateSchema_def ex_norm_def ex_env_def ex_raw_def ex_event_def
  as_string_def as_map_def extractActor_def Let_def stampVectorClock_def Merge_def
  Merge_step_def vc_get_def vc_set_def Increment_def vc_lookup_def truncate_int64_def
  UnixNano_def IsZero_def zeroTime_def extractEvidence_def excludeFields_def
  extractCorrelationID_def word_sless_alt MaxInt64_def

text \<open>
  Claim C4, as amended. For every raw input the Normalizer accepts and that supplies
  \<open>data.vector_clock\<close> as a mapping, the produced Event's vector-clock entry for this
  node's \<open>node_id\<close> is strictly greater than the nanosecond clock reading and than the
  merged-in clock's entry for \<open>node_id\<close>, when neither of the two is the largest
  \<open>int64\<close>. Nothing is stated about the entries of the merged-in clock under other
  node keys.
\<close>

theorem Normalize_own_entry_exceeds_merged_own_entry:
  assumes norm: "Normalize f n env raw = Inr ev"
    and data: "Data raw = Some data"
    and vc: "as_map data ''vector_clock'' = Some incomingVC"
    and keys: "distinct (map fst incomingVC)"
    and now: "UnixNano (now_clock env) \<noteq> MaxInt64"
    and own: "vc_lookup (parseVectorClock f incomingVC) (nodeID n) \<noteq> Some MaxInt64"
  shows "\<exists>v. vc_lookup (VectorClock ev) (nodeID n) = Some v \<and>
             UnixNano (now_clock env) <s v \<and>
             (\<forall>e. vc_lookup (parseVectorClock f incomingVC) (nodeID n) = Some e \<longrightarrow> e <s v)"
proof -
  define m where "m = (case vc_lookup (parseVectorClock f incomingVC) (nodeID n) of
              None \<Rightarrow> UnixNano (now_clock env)
            | Some e \<Rightarrow> smax (UnixNano (now_clock env)) e)"
  have look: "vc_lookup (VectorClock ev) (nodeID n) = Some (m + 1)"
    unfolding m_def Normalize_VectorClock [OF norm data]
    by (rule stampVectorClock_own [OF vc keys])
  have "m \<noteq> MaxInt64"
    using now own by (auto simp add: m_def smax_def split: option.splits)
  then have step: "m <s m + 1" by (rule sless_succ)
  have le_now: "UnixNano (now_clock env) \<le>s m"
    by (auto simp add: m_def smax_def split: option.splits)
  have le_own: "e \<le>s m" if "vc_lookup (parseVectorClock f incomingVC) (nodeID n) = Some e" for e
    using that by (auto simp add: m_def smax_def)
  from look step le_now le_own show ?thesis
    by (auto intro: signed.le_less_trans)
qed

theorem Normalize_own_entry_exceeds_merged_own_entry_witness:
  "Normalize truncate_int64 ex_norm ex_env
     (ex_raw [(''veps-1'', AFloat 1765359933000000512), (''nodeX'', AFloat 999999999)])
     = Inr (ex_event [(''veps-1'', 1765359933000000513), (''nodeX'', 999999999)]) \<and>
   (\<exists>v. vc_lookup [(''veps-1'', 1765359933000000513), (''nodeX'', 999999999)] ''veps-1'' = Some v \<and>
        (1765359933000000001 :: int64) <s v \<and> (1765359933000000512 :: int64) <s v)"
  using Normalize_own_entry_exceeds_merged_own_entry
    [of truncate_int64 ex_norm ex_env
        "ex_raw [(''veps-1'', AFloat 1765359933000000512), (''nodeX'', AFloat 999999999)]"
        "ex_event [(''veps-1'', 1765359933000000513), (''nodeX'', 999999999)]"
        "[(''type'', AString ''payment_processed''), (''user_id'', AString ''u1''),
          (''amount'', AFloat 100),
          (''vector_clock'', AMap [(''veps-1'', AFloat 1765359933000000512), (''nodeX'', AFloat 999999999)])]"
        "[(''veps-1'', AFloat 1765359933000000512), (''nodeX'', AFloat 999999999)]"]
  by (simp add: normalizer_eval)

text \<open>
  Claim C4 as stated fails: the caller supplies the clock \<open>{nodeX: 9000000000000000000}\<close>;
  the input is accepted, the own entry of the produced Event is the clock reading plus
  one, and that is not greater than the merged-in entry for \<open>nodeX\<close>.
\<close>

theorem Normalize_own_entry_exceeds_every_entry_counterexample:
  "Normalize truncate_int64 ex_norm ex_env (ex_raw [(''nodeX'', AFloat 9000000000000000000)])
     = Inr (ex_event [(''veps-1'', 1765359933000000002), (''nodeX'', 9000000000000000000)]) \<and>
   vc_lookup (parseVectorClock truncate_int64 [(''nodeX'', AFloat 9000000000000000000)]) ''nodeX''
     = Some 9000000000000000000 \<and>
   vc_lookup [(''veps-1'', 1765359933000000002), (''nodeX'', 9000000000000000000)] ''veps-1''
     = Some 1765359933000000002 \<and>
   \<not> (9000000000000000000 :: int64) <s 1765359933000000002"
  by (simp add: normalizer_eval)

text \<open>
  Why the amended claim excludes the largest \<open>int64\<close>: \<open>Increment\<close> wraps, so a caller's
  entry \<open>MaxInt64\<close> for this node leaves the own entry at the smallest \<open>int64\<close>.
\<close>

lemma Normalize_own_entry_wraps:
  "Normalize truncate_int64 ex_norm ex_env (ex_raw [(''veps-1'', AInt64 MaxInt64)])
     = Inr (ex_event [(''veps-1'', - 9223372036854775808)]) \<and>
   (- 9223372036854775808 :: int64) <s MaxInt64"
  by (simp add: normalizer_eval)

section \<open>Batch ingestion is all-or-nothing at normalization\<close>

text \<open>The loop stops at the first failing element and reports its index.\<close>

lemma normalizeAll_first_failure:
  assumes "k < length raws" and "element_fails f n (envs (i + k)) (raws ! k)"
  shows "\<exists>j\<le>k. element_fails f n (envs (i + j)) (raws ! j) \<and>
           (\<forall>l<j. \<not> element_fails f n (envs (i + l)) (raws ! l)) \<and>
           normalizeAll f n envs i raws events =
             Inl (reject_message f n (envs (i + j)) (i + j) (raws ! j))"
  using assms
proof (induction raws arbitrary: i k events)
  case Nil
  then show ?case by simp
next
  case (Cons rawEvent rest)
  show ?case
  proof (cases "element_fails f n (envs i) rawEvent")
    case True
    then have "normalizeAll f n envs i (rawEvent # rest) events =
        Inl (reject_message f n (envs i) i rawEvent)"
      by (auto simp add: element_fails_def reject_message_def isl_def split: sum.splits)
    with True show ?thesis
      by (intro exI [of _ 0]) simp
  next
    case False
    then obtain u event where ok: "ValidateSchema rawEvent = Inr u"
        "Normalize f n (envs i) rawEvent = Inr event"
      by (cases "ValidateSchema rawEvent"; cases "Normalize f n (envs i) rawEvent")
         (auto simp add: element_fails_def)
    from False Cons.prems obtain k' where k': "k = Suc k'"
      by (cases k) auto
    with Cons.prems have "k' < length rest" "element_fails f n (envs (Suc i + k')) (rest ! k')"
      by simp_all
    from Cons.IH [OF this, of "events @ [event]"]
    obtain j where j: "j \<le> k'" "element_fails f n (envs (Suc i + j)) (rest ! j)"
      "\<forall>l<j. \<not> element_fails f n (envs (Suc i + l)) (rest ! l)"
      "normalizeAll f n envs (Suc i) rest (events @ [event]) =
         Inl (reject_message f n (envs (Suc i + j)) (Suc i + j) (rest ! j))"
      by blast
    have all: "\<forall>l<Suc j. \<not> element_fails f n (envs (i + l)) ((rawEvent # rest) ! l)"
    proof (intro allI impI)
      fix l assume "l < Suc j"
      then show "\<not> element_fails f n (envs (i + l)) ((rawEvent # rest) ! l)"
        using False j(3) by (cases l) auto
    qed
    show ?thesis
      using j k' ok all
      by (intro exI [of _ "Suc j"]) simp
  qed
qed

lemma routed_writeError: "routed (writeError c m) = []" "status (writeError c m) = c"
  "Success (response (writeError c m)) = False" "Error (response (writeError c m)) = m"
  by (simp_all add: writeError_def)

text \<open>
  Claim C10, as amended. For every batch posted to \<^verbatim>\<open>/ingest/batch\<close> in which some
  element fails schema validation or normalization: the reply is HTTP 400 without
  success and no event of the batch is handed to the router (so none reaches the
  Integrity Path or the Context Path); and when the batch has at most 100 elements, the
  error text names the index of the first failing element.
\<close>

theorem IngestBatch_all_or_nothing:
  assumes fails: "k < length rawEvents"
      "element_fails f (normalizer h) (envs k) (rawEvents ! k)"
    and post: "method = ''POST''"
  shows "routed (IngestBatch f h envs method (Batch rawEvents)) = [] \<and>
         status (IngestBatch f h envs method (Batch rawEvents)) = 400 \<and>
         \<not> Success (response (IngestBatch f h envs method (Batch rawEvents))) \<and>
         (length rawEvents \<le> 100 \<longrightarrow>
            (\<exists>j\<le>k. element_fails f (normalizer h) (envs j) (rawEvents ! j) \<and>
               (\<forall>l<j. \<not> element_fails f (normalizer h) (envs l) (rawEvents ! l)) \<and>
               Error (response (IngestBatch f h envs method (Batch rawEvents))) =
                 reject_message f (normalizer h) (envs j) j (rawEvents ! j)))"
proof (cases "length rawEvents \<le> 100")
  case False
  then show ?thesis
    using post by (simp add: IngestBatch_def routed_writeError)
next
  case True
  from fails have ne: "length rawEvents \<noteq> 0" by auto
  from normalizeAll_first_failure [of k rawEvents f "normalizer h" envs 0 "[]"] fails
  obtain j where j: "j \<le> k" "element_fails f (normalizer h) (envs j) (rawEvents ! j)"
      "\<forall>l<j. \<not> element_fails f (normalizer h) (envs l) (rawEvents ! l)"
      "normalizeAll f (normalizer h) envs 0 rawEvents [] =
         Inl (reject_message f (normalizer h) (envs j) j (rawEvents ! j))"
    by auto
  have out: "IngestBatch f h envs method (Batch rawEvents) =
      writeError 400 (reject_message f (normalizer h) (envs j) j (rawEvents ! j))"
    using post True ne j(4) by (simp add: IngestBatch_def)
  show ?thesis
    unfolding out using j(1-3) by (auto simp add: routed_writeError)
qed

lemma ex_second_fails:
  "element_fails truncate_int64 ex_norm ex_env ex_raw_untyped"
  "\<not> element_fails truncate_int64 ex_norm ex_env (ex_raw [])"
  by (simp_all add: element_fails_def normalizer_eval ex_raw_untyped_def)

theorem IngestBatch_all_or_nothing_witness:
  "element_fails truncate_int64 (normalizer ex_handler) ex_env ([ex_raw [], ex_raw_untyped] ! 1) \<and>
   IngestBatch truncate_int64 ex_handler (\<lambda>i. ex_env) ''POST'' (Batch [ex_raw [], ex_raw_untyped]) =
     writeError 400 ''event 1 normalization failed: event type is required in data'' \<and>
   routed (IngestBatch truncate_int64 ex_handler (\<lambda>i. ex_env) ''POST'' (Batch [ex_raw [], ex_raw_untyped])) = []"
proof -
  have f: "element_fails truncate_int64 (normalizer ex_handler) ex_env ([ex_raw [], ex_raw_untyped] ! 1)"
    by (simp add: ex_handler_def ex_second_fails)
  have "IngestBatch truncate_int64 ex_handler (\<lambda>i. ex_env) ''POST'' (Batch [ex_raw [], ex_raw_untyped]) =
     writeError 400 ''event 1 normalization failed: event type is required in data''"
    by (simp add: IngestBatch_def ex_handler_def normalizer_eval ex_raw_untyped_def string_of_nat.simps digit_def)
  with f IngestBatch_all_or_nothing [of 1 "[ex_raw [], ex_raw_untyped]" truncate_int64 ex_handler "\<lambda>i. ex_env" "''POST''"]
  show ?thesis by simp
qed


text \<open>Every reply that names a failing element starts with the word \<open>event\<close>.\<close>

lemma reject_message_starts: "take 6 (reject_message f n env i rawEvent) = ''event ''"
  by (simp add: reject_message_def)

text \<open>
  Claim C10 as stated fails for a batch over the size bound: of 101 elements the last
  one fails normalization; the reply is the 400 of the size check, which is sent before
  the normalization loop and names no index.
\<close>

theorem IngestBatch_names_index_counterexample:
  "length ex_batch_101 = 101 \<and>
   element_fails truncate_int64 (normalizer ex_handler) ex_env (ex_batch_101 ! 100) \<and>
   IngestBatch truncate_int64 ex_handler (\<lambda>i. ex_env) ''POST'' (Batch ex_batch_101) =
     writeError 400 ''batch size exceeds maximum of 100 events'' \<and>
   Error (response (IngestBatch truncate_int64 ex_handler (\<lambda>i. ex_env) ''POST''
                      (Batch ex_batch_101))) \<noteq>
     reject_message truncate_int64 (normalizer ex_handler) ex_env 100 (ex_batch_101 ! 100) \<and>
   take 6 (Error (response (IngestBatch truncate_int64 ex_handler (\<lambda>i. ex_env) ''POST''
                      (Batch ex_batch_101)))) \<noteq> ''event ''"
proof -
  have len: "length ex_batch_101 = 101"
    by (simp add: ex_batch_101_def)
  have last: "ex_batch_101 ! 100 = ex_raw_untyped"
    by (simp add: ex_batch_101_def nth_append)
  have f: "element_fails truncate_int64 (normalizer ex_handler) ex_env (ex_batch_101 ! 100)"
    by (simp add: last ex_handler_def ex_second_fails)
  have out: "IngestBatch truncate_int64 ex_handler (\<lambda>i. ex_env) ''POST'' (Batch ex_batch_101) =
     writeError 400 ''batch size exceeds maximum of 100 events''"
    by (simp add: IngestBatch_def len)
  have t: "take 6 (Error (response (writeError 400 ''batch size exceeds maximum of 100 events'')))
             \<noteq> ''event ''"
    by (simp add: writeError_def)
  have ne: "Error (response (writeError 400 ''batch size exceeds maximum of 100 events'')) \<noteq>
     reject_message truncate_int64 (normalizer ex_handler) ex_env 100 (ex_batch_101 ! 100)"
    using t reject_message_starts [of truncate_int64 "normalizer ex_handler" ex_env 100
        "ex_batch_101 ! 100"]
    by metis
  from len f out t ne show ?thesis by simp
qed

section \<open>Context store: causality query\<close>

lemma count_zero_iff: "(length (filter P xs) = 0) = (\<not> list_ex P xs)"
  by (induction xs) auto

lemma causality_loop_ok:
  "query_error s = None \<Longrightarrow>
   causality_loop s vc missing = Inr (missing @ map fst (filter (\<lambda>e. \<not> backed s e) vc))"
proof (induction vc arbitrary: missing)
  case Nil
  then show ?case by simp
next
  case (Cons e vc)
  obtain node ts where e: "e = (node, ts)" by (cases e)
  show ?case
    using Cons.prems
    by (simp add: e Cons.IH [OF Cons.prems] backed_def Let_def list_ex_iff filter_empty_conv)
qed

lemma CheckVectorClockCausality_ok:
  assumes "query_error s = None"
  shows "CheckVectorClockCausality s vc =
           Inr ((\<forall>e \<in> set vc. backed s e), map fst (filter (\<lambda>e. \<not> backed s e) vc))"
  by (simp add: CheckVectorClockCausality_def causality_loop_ok [OF assms] filter_empty_conv)

lemma backed_mono:
  "set (events_rows s) \<subseteq> set (events_rows s') \<Longrightarrow> backed s e \<Longrightarrow> backed s' e"
  by (auto simp add: backed_def list_ex_iff)

text \<open>
  Claim C3, as amended. For every store state whose database answers and every vector
  clock \<open>vc\<close>: the causality query returns \<open>satisfied = true\<close> exactly when, for each
  \<open>(node, ts)\<close> entry of \<open>vc\<close>, there is at least one persisted event recorded by that
  node (\<open>boundary_node = node\<close>) whose vector-clock entry for \<open>node\<close> is at most \<open>ts\<close>;
  \<open>missing_nodes\<close> lists exactly the nodes without such an event, in the order of the
  iteration; and a store that holds all the rows and more still answers
  \<open>satisfied = true\<close>.
\<close>

theorem CheckVectorClockCausality_semantics:
  assumes "query_error s = None"
  shows "CheckVectorClockCausality s vc =
           Inr ((\<forall>e \<in> set vc. backed s e), map fst (filter (\<lambda>e. \<not> backed s e) vc)) \<and>
         ((\<forall>e \<in> set vc. backed s e) \<longrightarrow> query_error s' = None \<longrightarrow>
            set (events_rows s) \<subseteq> set (events_rows s') \<longrightarrow>
            CheckVectorClockCausality s' vc = Inr (True, []))"
proof (intro conjI impI)
  show "CheckVectorClockCausality s vc =
           Inr ((\<forall>e \<in> set vc. backed s e), map fst (filter (\<lambda>e. \<not> backed s e) vc))"
    by (rule CheckVectorClockCausality_ok [OF assms])
next
  assume all: "\<forall>e \<in> set vc. backed s e" and q: "query_error s' = None"
    and sub: "set (events_rows s) \<subseteq> set (events_rows s')"
  from all sub have all': "\<forall>e \<in> set vc. backed s' e"
    by (blast intro: backed_mono)
  then have "filter (\<lambda>e. \<not> backed s' e) vc = []"
    by (simp add: filter_empty_conv)
  with all' show "CheckVectorClockCausality s' vc = Inr (True, [])"
    by (simp add: CheckVectorClockCausality_ok [OF q])
qed

lemmas store_eval = db_of_def ex_row_def ex_event_again_def CheckVectorClockCausality_def
  causality_where_def backed_def spec_backed_def vc_lookup_def Let_def UpsertEvent_def
  insert_values_def on_conflict_update_def IsZero_def zeroTime_def primary_key_def

theorem CheckVectorClockCausality_semantics_witness:
  "query_error (db_of [ex_row]) = None \<and>
   CheckVectorClockCausality (db_of [ex_row]) [(''B'', 5)] = Inr (True, []) \<and>
   CheckVectorClockCausality (db_of [ex_row, ex_row\<lparr>row_id := ''e2''\<rparr>]) [(''B'', 5)] = Inr (True, []) \<and>
   CheckVectorClockCausality (db_of [ex_row]) [(''B'', 1), (''Z'', 7)] = Inr (False, [''B'', ''Z''])"
  using CheckVectorClockCausality_semantics [of "db_of [ex_row]" "[(''B'', 5)]"
      "db_of [ex_row, ex_row\<lparr>row_id := ''e2''\<rparr>]"]
    CheckVectorClockCausality_semantics [of "db_of [ex_row]" "[(''B'', 1), (''Z'', 7)]"
      "db_of [ex_row]"]
  by (simp add: store_eval word_sle_eq)

text \<open>
  Claim C3 as stated fails: the store holds an event recorded by node \<open>B\<close> whose clock
  has the entry \<open>A: 1\<close>, so the condition of the claim holds for \<open>(A, 5)\<close>; the query
  counts only rows with \<open>boundary_node = A\<close> and reports \<open>A\<close> missing.
\<close>

theorem CheckVectorClockCausality_any_recorder_counterexample:
  "events_rows (db_of [ex_row]) = [ex_row] \<and>
   vc_lookup (row_vector_clock ex_row) ''A'' = Some 1 \<and> (1 :: int64) \<le>s 5 \<and>
   spec_backed (db_of [ex_row]) (''A'', 5) \<and>
   CheckVectorClockCausality (db_of [ex_row]) [(''A'', 5)] = Inr (False, [''A''])"
  by (simp add: store_eval word_sle_eq)


section \<open>Context store: upsert\<close>

lemma on_conflict_update_id: "row_id (on_conflict_update stored excluded) = row_id stored"
  by (simp add: on_conflict_update_def)

lemma filter_map_key:
  assumes "distinct (map row_id rs)" and "stored \<in> set rs"
    and "\<And>r. row_id (g r) = row_id r"
  shows "filter (\<lambda>r. row_id r = row_id stored) (map g rs) = [g stored]"
  using assms(1,2)
proof (induction rs)
  case Nil
  then show ?case by simp
next
  case (Cons r rs)
  show ?case
  proof (cases "r = stored")
    case True
    with Cons.prems have "row_id stored \<notin> row_id ` set rs" by simp
    then have "\<forall>x \<in> set rs. row_id x \<noteq> row_id stored" by (metis imageI)
    then have "filter (\<lambda>r. row_id r = row_id stored) (map g rs) = []"
      by (simp add: filter_empty_conv assms(3))
    with True show ?thesis by (simp add: assms(3))
  next
    case False
    with Cons.prems have "stored \<in> set rs" "row_id r \<noteq> row_id stored" "distinct (map row_id rs)"
      by (auto simp add: image_iff)
    with Cons.IH show ?thesis by (simp add: assms(3))
  qed
qed

lemma UpsertEvent_update_rows:
  assumes "UpsertEvent now db_now s event = Inr s'"
    and "stored \<in> set (events_rows s)" and "row_id stored = ID event"
  shows "events_rows s' =
     map (\<lambda>r. if row_id r = ID event
              then on_conflict_update r (insert_values now db_now event) else r) (events_rows s)"
proof -
  have "row_id (insert_values now db_now event) = ID event"
    by (simp add: insert_values_def Let_def)
  moreover have "ID event \<in> row_id ` set (events_rows s)"
    using assms(2,3) by force
  ultimately show ?thesis
    using assms(1) by (auto simp add: UpsertEvent_def Let_def split: option.splits)
qed

text \<open>
  Claim C6, as amended. When \<open>UpsertEvent\<close> succeeds for an event whose id is already
  stored, the one row with that id afterwards holds the incoming event's values in the
  columns \<open>type\<close>, \<open>source\<close>, \<open>timestamp\<close>, \<open>actor_id\<close>, \<open>actor_name\<close>,
  \<open>actor_type\<close>, \<open>evidence\<close>, \<open>vector_clock\<close>, \<open>boundary_node\<close>, \<open>correlation_id\<close> and
  \<open>processed_at\<close>, where \<open>processed_at\<close> is the current UTC time when the incoming
  event's \<open>processed_at\<close> is not set; no row is added.
\<close>

theorem UpsertEvent_update_replaces_listed_columns:
  assumes up: "UpsertEvent now db_now s event = Inr s'"
    and pk: "primary_key s"
    and mem: "stored \<in> set (events_rows s)" and sid: "row_id stored = ID event"
  shows "\<exists>r'. filter (\<lambda>r. row_id r = ID event) (events_rows s') = [r'] \<and>
           row_type r' = Type event \<and>
           row_source r' = Source event \<and>
           row_timestamp r' = Timestamp event \<and>
           row_actor_id r' = ActorID (Actor event) \<and>
           row_actor_name r' = ActorName (Actor event) \<and>
           row_actor_type r' = ActorType (Actor event) \<and>
           row_evidence r' = Evidence event \<and>
           row_vector_clock r' = VectorClock event \<and>
           row_boundary_node r' = BoundaryNode (Metadata event) \<and>
           row_correlation_id r' = CorrelationID (Metadata event) \<and>
           row_processed_at r' =
             (if IsZero (ProcessedAt (Metadata event)) then now
              else ProcessedAt (Metadata event)) \<and>
           length (events_rows s') = length (events_rows s)"
proof -
  let ?g = "\<lambda>r. if row_id r = ID event
              then on_conflict_update r (insert_values now db_now event) else r"
  have rows: "events_rows s' = map ?g (events_rows s)"
    by (rule UpsertEvent_update_rows [OF up mem sid])
  have keep: "\<And>r. row_id (?g r) = row_id r"
    by (simp add: on_conflict_update_id)
  from pk have d: "distinct (map row_id (events_rows s))"
    by (simp add: primary_key_def)
  have "filter (\<lambda>r. row_id r = row_id stored) (map ?g (events_rows s)) = [?g stored]"
    using d mem keep by (rule filter_map_key)
  then have one: "filter (\<lambda>r. row_id r = ID event) (events_rows s') =
      [on_conflict_update stored (insert_values now db_now event)]"
    by (simp add: rows sid)
  show ?thesis
    unfolding one
    by (simp add: rows on_conflict_update_def insert_values_def Let_def)
qed

text \<open>The columns that the \<^verbatim>\<open>SET\<close> list does not name keep the stored values.\<close>

lemma UpsertEvent_update_keeps_unlisted_columns:
  assumes up: "UpsertEvent now db_now s event = Inr s'"
    and pk: "primary_key s"
    and mem: "stored \<in> set (events_rows s)" and sid: "row_id stored = ID event"
  shows "\<exists>r'. filter (\<lambda>r. row_id r = ID event) (events_rows s') = [r'] \<and>
           row_received_at r' = row_received_at stored \<and>
           row_schema_version r' = row_schema_version stored \<and>
           row_created_at r' = row_created_at stored"
proof -
  let ?g = "\<lambda>r. if row_id r = ID event
              then on_conflict_update r (insert_values now db_now event) else r"
  have rows: "events_rows s' = map ?g (events_rows s)"
    by (rule UpsertEvent_update_rows [OF up mem sid])
  have keep: "\<And>r. row_id (?g r) = row_id r"
    by (simp add: on_conflict_update_id)
  from pk have d: "distinct (map row_id (events_rows s))"
    by (simp add: primary_key_def)
  have "filter (\<lambda>r. row_id r = row_id stored) (map ?g (events_rows s)) = [?g stored]"
    using d mem keep by (rule filter_map_key)
  then have one: "filter (\<lambda>r. row_id r = ID event) (events_rows s') =
      [on_conflict_update stored (insert_values now db_now event)]"
    by (simp add: rows sid)
  show ?thesis
    unfolding one by (simp add: on_conflict_update_def)
qed

lemma ex_upsert:
  "UpsertEvent 1765360000000000000 1765360000000000001 (db_of [ex_row]) ex_event_again
     = Inr (db_of [ex_row_after])"
  by (simp add: store_eval ex_row_after_def)

theorem UpsertEvent_update_replaces_listed_columns_witness:
  "UpsertEvent 1765360000000000000 1765360000000000001 (db_of [ex_row]) ex_event_again
     = Inr (db_of [ex_row_after]) \<and>
   primary_key (db_of [ex_row]) \<and> row_id ex_row = ID ex_event_again \<and>
   IsZero (ProcessedAt (Metadata ex_event_again)) \<and>
   row_type ex_row_after = Type ex_event_again \<and>
   row_vector_clock ex_row_after = VectorClock ex_event_again \<and>
   row_processed_at ex_row_after = 1765360000000000000"
  using UpsertEvent_update_replaces_listed_columns
    [of 1765360000000000000 1765360000000000001 "db_of [ex_row]" ex_event_again
        "db_of [ex_row_after]" ex_row]
  by (simp add: store_eval ex_row_after_def)

text \<open>
  Claim C6 as stated fails: after the upsert of an event with the stored id, the row's
  \<open>received_at\<close> and \<open>schema_version\<close> are the stored ones, not the incoming event's.
\<close>

theorem UpsertEvent_update_replaces_every_column_counterexample:
  "UpsertEvent 1765360000000000000 1765360000000000001 (db_of [ex_row]) ex_event_again
     = Inr (db_of [ex_row_after]) \<and>
   row_id ex_row = ID ex_event_again \<and>
   row_received_at ex_row_after \<noteq> ReceivedAt (Metadata ex_event_again) \<and>
   row_schema_version ex_row_after \<noteq> SchemaVersion (Metadata ex_event_again) \<and>
   row_received_at ex_row_after = row_received_at ex_row \<and>
   row_schema_version ex_row_after = row_schema_version ex_row"
  by (simp add: store_eval ex_row_after_def)


text \<open>
  On the insert path the stored rows stay and one is added; on the update path a row is
  overwritten, and a query that was satisfied by it need not stay satisfied.
\<close>

lemma UpsertEvent_insert_keeps_rows:
  assumes "UpsertEvent now db_now s event = Inr s'"
    and "ID event \<notin> row_id ` set (events_rows s)"
  shows "set (events_rows s) \<subseteq> set (events_rows s')"
proof -
  have "row_id (insert_values now db_now event) = ID event"
    by (simp add: insert_values_def Let_def)
  then show ?thesis
    using assms by (auto simp add: UpsertEvent_def Let_def split: option.splits)
qed

lemma UpsertEvent_update_can_unsatisfy:
  "CheckVectorClockCausality (db_of [ex_row]) [(''B'', 5)] = Inr (True, []) \<and>
   UpsertEvent 1765360000000000000 1765360000000000001 (db_of [ex_row]) ex_event_again
     = Inr (db_of [ex_row_after]) \<and>
   CheckVectorClockCausality (db_of [ex_row_after]) [(''B'', 5)] = Inr (False, [''B''])"
  by (simp add: store_eval ex_row_after_def word_sle_eq)

section \<open>Validator: all checks are run\<close>

lemmas validator_eval = Validate_def checkCausality_def checkActorExists_def
  checkBusinessRules_def validatePayment_def validateLogin_def validateWithdrawal_def
  checkTemporal_def failure_def sprintf_v_def as_float64_def Let_def Hour_def Minute_def
  ex_validator_def ex_validator_down_def ex_val_env_def ex_big_payment_def ex_event_def
  decimal_2f_def round_half_even_def string_of_nat.simps digit_def

text \<open>The three checks that make no call outside never return an error.\<close>

lemma checkActorExists_total: "\<exists>a. checkActorExists v event = Inr a"
  by (simp add: checkActorExists_def)

lemma checkBusinessRules_total: "\<exists>b. checkBusinessRules env event = Inr b"
  by (simp add: checkBusinessRules_def validatePayment_def validateLogin_def
      validateWithdrawal_def split: option.splits)

lemma checkTemporal_total: "\<exists>t. checkTemporal env event = Inr t"
  by (simp add: checkTemporal_def Let_def)

lemma Validate_unfold:
  assumes "checkCausality v event = Inr c" and "checkActorExists v event = Inr a"
    and "checkBusinessRules env event = Inr b" and "checkTemporal env event = Inr t"
  shows "Validate v env event =
     Inr (failure ''causality'' c @ failure ''actor_existence'' a @
          failure ''business_rules'' b @ failure ''temporal'' t = [],
          failure ''causality'' c @ failure ''actor_existence'' a @
          failure ''business_rules'' b @ failure ''temporal'' t)"
  using assms by (simp add: Validate_def failure_def Let_def)

text \<open>
  Claim C8. For every event and every answer of the store to the causality query, the
  Validator runs the four checks (causality, actor existence, business rules, temporal),
  each whatever the earlier ones returned, and returns the failures list made of one
  entry for each check that did not pass, in that order; \<open>passed\<close> is true exactly when
  the list is empty.
\<close>

theorem Validate_reports_every_failed_check:
  assumes "checkCausality v event = Inr c"
  shows "\<exists>a b t errors.
           checkActorExists v event = Inr a \<and>
           checkBusinessRules env event = Inr b \<and>
           checkTemporal env event = Inr t \<and>
           errors = failure ''causality'' c @ failure ''actor_existence'' a @
                    failure ''business_rules'' b @ failure ''temporal'' t \<and>
           Validate v env event = Inr (errors = [], errors)"
proof -
  obtain a where a: "checkActorExists v event = Inr a"
    using checkActorExists_total by blast
  obtain b where b: "checkBusinessRules env event = Inr b"
    using checkBusinessRules_total by blast
  obtain t where t: "checkTemporal env event = Inr t"
    using checkTemporal_total by blast
  from Validate_unfold [OF assms a b t] a b t show ?thesis by blast
qed

theorem Validate_reports_every_failed_check_witness:
  "checkCausality ex_validator ex_big_payment =
     Inr \<lparr>Passed = False,
          Reason = ''causal dependencies not satisfied, missing nodes: [nodeX]''\<rparr> \<and>
   Validate ex_validator ex_val_env ex_big_payment =
     Inr (False,
          [\<lparr>Check = ''causality'',
            ErrReason = ''causal dependencies not satisfied, missing nodes: [nodeX]''\<rparr>,
           \<lparr>Check = ''business_rules'',
            ErrReason = ''payment amount exceeds limit: 5000000.00''\<rparr>,
           \<lparr>Check = ''temporal'',
            ErrReason = ''event timestamp is too old (more than 1 hour in the past)''\<rparr>])"
proof -
  have c: "checkCausality ex_validator ex_big_payment =
     Inr \<lparr>Passed = False,
          Reason = ''causal dependencies not satisfied, missing nodes: [nodeX]''\<rparr>"
    by (simp add: validator_eval)
  from Validate_reports_every_failed_check [OF c, of ex_val_env] c
  show ?thesis
    by (auto simp add: validator_eval)
qed

text \<open>A transport error of the store client is not a failed check: it ends the call.\<close>

lemma Validate_error_ends_call:
  "checkCausality v event = Inl err \<Longrightarrow>
   Validate v env event = Inl (Errorf (''causality check error: '' @ message err))"
  by (simp add: Validate_def)

lemma Validate_error_example:
  "Validate ex_validator_down ex_val_env ex_big_payment =
     Inl (Errorf ''causality check error: failed to send request'')"
  by (simp add: validator_eval)


section \<open>Fracture archive: the hour bucket\<close>

text \<open>The calendar fields of the instants used below, and of some known dates.\<close>

lemma civil_example_event: "civil 1765359933000000000 = (2025, 12, 10)"
  by code_simp

lemma civil_example_fracture: "civil 1765370733000000000 = (2025, 12, 10)"
  by code_simp

lemma civil_checks:
  "civil 0 = (1970, 1, 1)" "civil (- 1) = (1969, 12, 31)"
  "civil zeroTime = (1, 1, 1)"
  "civil 951782400000000000 = (2000, 2, 29)"
  "civil 1709251199000000000 = (2024, 2, 29)"
  "civil 1709251200000000000 = (2024, 3, 1)"
  "civil 4107542400000000000 = (2100, 3, 1)"
  by code_simp+

lemmas fracture_eval = generateObjectPath_def sprintf_0d_def Year_def Month_def Day_def
  Hour_of_def Let_def string_of_nat.simps digit_def
  ToFracturedEvent_def WriteFracture_def ex_fracture_request_def ex_fracture_env_def
  ex_writer_def ex_event_def Hour_def civil_example_event civil_example_fracture


text \<open>
  Claim C2, as amended. Every FracturedEvent that \<open>WriteFracture\<close> writes for a fracture
  request is written under the object path \<open>YYYY/MM/DD/fractures-HH.jsonl\<close> of the year,
  month, day and hour (UTC) of the FracturedEvent's own timestamp, which
  \<open>ToFracturedEvent\<close> sets to the time of the conversion; the rejected event is carried
  in the record unchanged and its timestamp plays no part in the path.
\<close>

theorem WriteFracture_path_is_fracture_hour:
  assumes "WriteFracture w arch (ToFracturedEvent env fr) = Inr arch'"
  shows "arch' = arch @
           [(sprintf_0d 4 (Year (fracture_now env)) @ ''/'' @
             sprintf_0d 2 (Month (fracture_now env)) @ ''/'' @
             sprintf_0d 2 (Day (fracture_now env)) @ ''/fractures-'' @
             sprintf_0d 2 (Hour_of (fracture_now env)) @ ''.jsonl'',
             ToFracturedEvent env fr)] \<and>
         FractureTimestamp (ToFracturedEvent env fr) = fracture_now env \<and>
         FracturedEvent_Event (ToFracturedEvent env fr) = ReqEvent fr"
  using assms
  by (auto simp add: WriteFracture_def ToFracturedEvent_def generateObjectPath_def Let_def
      split: option.splits)

theorem WriteFracture_path_is_fracture_hour_witness:
  "WriteFracture ex_writer [] (ToFracturedEvent ex_fracture_env ex_fracture_request) =
     Inr [(''2025/12/10/fractures-12.jsonl'', ToFracturedEvent ex_fracture_env ex_fracture_request)] \<and>
   Year (fracture_now ex_fracture_env) = 2025 \<and> Month (fracture_now ex_fracture_env) = 12 \<and>
   Day (fracture_now ex_fracture_env) = 10 \<and> Hour_of (fracture_now ex_fracture_env) = 12"
proof -
  have w: "WriteFracture ex_writer [] (ToFracturedEvent ex_fracture_env ex_fracture_request) =
     Inr [(''2025/12/10/fractures-12.jsonl'', ToFracturedEvent ex_fracture_env ex_fracture_request)]"
    by (simp add: fracture_eval)
  from WriteFracture_path_is_fracture_hour [OF w] w show ?thesis
    by (simp add: fracture_eval)
qed

text \<open>
  Claim C2 as stated fails: the rejected event's timestamp is 2025-12-10 09:45:33 UTC,
  the request is converted at 12:45:33 UTC, and the record is written under the hour
  bucket 12, not under the event's bucket 09.
\<close>

theorem WriteFracture_path_is_event_hour_counterexample:
  "WriteFracture ex_writer [] (ToFracturedEvent ex_fracture_env ex_fracture_request) =
     Inr [(''2025/12/10/fractures-12.jsonl'', ToFracturedEvent ex_fracture_env ex_fracture_request)] \<and>
   Timestamp (ReqEvent ex_fracture_request) = 1765359933000000000 \<and>
   Year 1765359933000000000 = 2025 \<and> Month 1765359933000000000 = 12 \<and>
   Day 1765359933000000000 = 10 \<and> Hour_of 1765359933000000000 = 9 \<and>
   generateObjectPath (Timestamp (ReqEvent ex_fracture_request)) = ''2025/12/10/fractures-09.jsonl''"
  by (simp add: fracture_eval)


section \<open>Boundary router: what a successful Route has waited for\<close>

lemma Route_inv_init: "Route_inv (Route_init event)"
  by (simp add: Route_inv_def Route_init_def)

lemma Route_inv_step:
  assumes "Route_inv s" and "Route_step a s = Some s'"
  shows "Route_inv s'"
proof (cases a)
  case (IntegrityReturns err)
  with assms show ?thesis
    by (auto simp add: Route_inv_def split: if_splits option.splits)
next
  case IntegritySends
  with assms show ?thesis
    by (auto simp add: Route_inv_def split: if_splits integrity_pc.splits)
next
  case IntegrityExits
  with assms show ?thesis
    by (auto simp add: Route_inv_def split: if_splits)
next
  case (ContextReturns err)
  with assms show ?thesis
    by (auto simp add: Route_inv_def split: if_splits option.splits)
next
  case ContextExits
  with assms show ?thesis
    by (auto simp add: Route_inv_def split: if_splits)
next
  case (ContextDone e)
  with assms show ?thesis
    by (auto simp add: Route_inv_def split: if_splits)
next
  case MainReceives
  with assms show ?thesis
    by (auto simp add: Route_inv_def split: if_splits option.splits)
next
  case MainSeesDone
  with assms show ?thesis
    by (auto simp add: Route_inv_def split: if_splits option.splits)
next
  case MainWaitEnds
  with assms show ?thesis
    by (auto simp add: Route_inv_def split: if_splits)
qed

lemma Route_inv_run:
  "Route_inv s \<Longrightarrow> Route_run as s = Some s' \<Longrightarrow> Route_inv s'"
proof (induction as arbitrary: s)
  case Nil
  then show ?case by simp
next
  case (Cons a as)
  from Cons.prems(2) obtain s1 where s1: "Route_step a s = Some s1" "Route_run as s1 = Some s'"
    by (auto split: option.splits)
  from Cons.prems(1) s1(1) have "Route_inv s1" by (rule Route_inv_step)
  then show ?case using s1(2) by (rule Cons.IH)
qed

text \<open>
  Claim C1 is that \<open>Route\<close> returns success without awaiting the Context Path, which
  may still be in flight when the caller receives the response. The code does otherwise:
  in every run, when \<open>Route\<close> has returned success the context goroutine has exited,
  and the booleans of the result are the final ones (\<open>ContextSuccess\<close> is true exactly
  when the context call returned no error).
\<close>

theorem Route_success_waits_for_context:
  assumes run: "Route_run as (Route_init event) = Some s"
    and ret: "mpc s = MReturned None"
  shows "\<not> context_in_flight s \<and> IntegritySuccess (result s) \<and>
         ContextSuccess (result s) = (ContextError (result s) = None)"
proof -
  have inv: "Route_inv s"
    using Route_inv_init run by (rule Route_inv_run)
  with ret have "wg s = 0" and i: "IntegritySuccess (result s)"
    by (simp_all add: Route_inv_def)
  with inv have c: "cpc s = CExited"
    by (auto simp add: Route_inv_def split: if_splits)
  with inv have "ContextSuccess (result s) = (ContextError (result s) = None)"
    by (simp add: Route_inv_def)
  with c i show ?thesis by (simp add: context_in_flight_def)
qed

theorem Route_success_waits_for_context_witness:
  "Route_run ex_run_success (Route_init (ex_event [])) =
     Some \<lparr>ipc = IExited, cpc = CExited, mpc = MReturned None, integrityDone = None,
           ctx_err = None, wg = 0,
           result = \<lparr>RouteEvent = ex_event [], IntegritySuccess = True, IntegrityError = None,
                     ContextSuccess = False,
                     ContextError = Some (Errorf ''RDB Updater returned status 500''),
                     Duration = 0\<rparr>\<rparr> \<and>
   \<not> context_in_flight \<lparr>ipc = IExited, cpc = CExited, mpc = MReturned None, integrityDone = None,
           ctx_err = None, wg = 0,
           result = \<lparr>RouteEvent = ex_event [], IntegritySuccess = True, IntegrityError = None,
                     ContextSuccess = False,
                     ContextError = Some (Errorf ''RDB Updater returned status 500''),
                     Duration = 0\<rparr>\<rparr>"
proof -
  have r: "Route_run ex_run_success (Route_init (ex_event [])) =
     Some \<lparr>ipc = IExited, cpc = CExited, mpc = MReturned None, integrityDone = None,
           ctx_err = None, wg = 0,
           result = \<lparr>RouteEvent = ex_event [], IntegritySuccess = True, IntegrityError = None,
                     ContextSuccess = False,
                     ContextError = Some (Errorf ''RDB Updater returned status 500''),
                     Duration = 0\<rparr>\<rparr>"
    by (simp add: ex_run_success_def Route_init_def)
  from Route_success_waits_for_context [OF r] r show ?thesis by simp
qed

text \<open>
  The Integrity Path has succeeded and the caller has received \<open>nil\<close>, the context call
  has not returned: the caller is in \<^verbatim>\<open>wg.Wait()\<close> and cannot return.
\<close>

lemma Route_blocks_while_context_in_flight:
  "Route_run [IntegrityReturns None, IntegritySends, IntegrityExits, MainReceives]
       (Route_init (ex_event [])) =
     Some \<lparr>ipc = IExited, cpc = CCalling, mpc = MWait, integrityDone = None,
           ctx_err = None, wg = 1,
           result = \<lparr>RouteEvent = ex_event [], IntegritySuccess = True, IntegrityError = None,
                     ContextSuccess = False, ContextError = None, Duration = 0\<rparr>\<rparr> \<and>
   Route_step MainWaitEnds
     \<lparr>ipc = IExited, cpc = CCalling, mpc = MWait, integrityDone = None,
      ctx_err = None, wg = 1,
      result = \<lparr>RouteEvent = ex_event [], IntegritySuccess = True, IntegrityError = None,
                ContextSuccess = False, ContextError = None, Duration = 0\<rparr>\<rparr> = None"
  by (simp add: Route_init_def)

text \<open>A rejection and a timeout are returned while the Context Path is in flight.\<close>

lemma Route_failure_does_not_wait:
  "Route_run [IntegrityReturns (Some (Errorf ''vetoed'')), IntegritySends, MainReceives]
       (Route_init (ex_event [])) =
     Some \<lparr>ipc = IDeferred, cpc = CCalling,
           mpc = MReturned (Some (Errorf ''integrity path failed: vetoed'')),
           integrityDone = None, ctx_err = None, wg = 2,
           result = \<lparr>RouteEvent = ex_event [], IntegritySuccess = False,
                     IntegrityError = Some (Errorf ''vetoed''),
                     ContextSuccess = False, ContextError = None, Duration = 0\<rparr>\<rparr>"
  by (simp add: Route_init_def)

lemma Route_timeout_does_not_wait:
  "Route_run [ContextDone ''context deadline exceeded'', MainSeesDone]
       (Route_init (ex_event [])) =
     Some \<lparr>ipc = ICalling, cpc = CCalling,
           mpc = MReturned (Some (Errorf ''integrity path timeout exceeded: context deadline exceeded'')),
           integrityDone = None, ctx_err = Some ''context deadline exceeded'', wg = 2,
           result = \<lparr>RouteEvent = ex_event [], IntegritySuccess = False,
                     IntegrityError = None,
                     ContextSuccess = False, ContextError = None, Duration = 0\<rparr>\<rparr>"
  by (simp add: Route_init_def)


section \<open>Router timeout: the defaults\<close>

lemmas config_eval = main_router_timeout_def loadConfig_def New_def Let_def ex_host_def
  ParseDuration_digits_ms_def digit_value_def Millisecond_def Second_def


text \<open>
  Claim C7, as amended. When \<open>ROUTER_TIMEOUT_MS\<close> is absent (or empty, or does not parse
  as a duration in milliseconds), the timeout of the router that \<open>main\<close> builds is 50
  milliseconds. A configured value is used as it is, except zero, which \<open>router.New\<close>
  replaces by its own default of 10 seconds.
\<close>

theorem main_router_timeout_cases:
  "(getenv h ''ROUTER_TIMEOUT_MS'' = [] \<longrightarrow> main_router_timeout h = 50 * Millisecond) \<and>
   (getenv h ''ROUTER_TIMEOUT_MS'' \<noteq> [] \<longrightarrow>
      (case ParseDuration h (getenv h ''ROUTER_TIMEOUT_MS'' @ ''ms'') of
         Inl err \<Rightarrow> main_router_timeout h = 50 * Millisecond
       | Inr ms \<Rightarrow> main_router_timeout h = (if ms = 0 then 10 * Second else ms)))"
  by (simp add: main_router_timeout_def loadConfig_def New_def Let_def Millisecond_def
      split: sum.splits)

theorem main_router_timeout_cases_witness:
  "getenv (ex_host []) ''ROUTER_TIMEOUT_MS'' = [] \<and>
   main_router_timeout (ex_host []) = 50 * Millisecond \<and>
   getenv (ex_host ''250'') ''ROUTER_TIMEOUT_MS'' \<noteq> [] \<and>
   ParseDuration (ex_host ''250'') ''250ms'' = Inr (250 * Millisecond) \<and>
   main_router_timeout (ex_host ''250'') = 250 * Millisecond \<and>
   isl (ParseDuration (ex_host ''fast'') ''fastms'') \<and>
   main_router_timeout (ex_host ''fast'') = 50 * Millisecond"
  using main_router_timeout_cases [of "ex_host []"] main_router_timeout_cases [of "ex_host ''250''"]
    main_router_timeout_cases [of "ex_host ''fast''"]
  by (simp add: config_eval)

text \<open>
  Claim C7 as stated fails for a configured zero: with \<open>ROUTER_TIMEOUT_MS=0\<close> the
  configuration holds the timeout 0 and the router's timeout is 10 seconds, not 50 ms.
\<close>

theorem main_router_timeout_zero_counterexample:
  "getenv (ex_host ''0'') ''ROUTER_TIMEOUT_MS'' = ''0'' \<and>
   ParseDuration (ex_host ''0'') ''0ms'' = Inr 0 \<and>
   RouterTimeout (fst (loadConfig (ex_host ''0''))) = 0 \<and>
   main_router_timeout (ex_host ''0'') = 10 * Second \<and>
   main_router_timeout (ex_host ''0'') \<noteq> 50 * Millisecond"
  by (simp add: config_eval)


end
